theory Spec2Isabelle
  imports Complex_Main "HOL-Library.Word"
begin

unbundle bit_operations_syntax

section \<open>Sales analytics ETL: cleaning helpers and the warehouse load\<close>

text \<open>
  A shallow embedding of \<^verbatim>\<open>src/etl/order_info_etl.py\<close> (and of the helpers it shares
  with \<^verbatim>\<open>src/etl/product_info_etl.py\<close>). The pure helpers become HOL functions; the SQL
  statements that \<^verbatim>\<open>main\<close> sends to the warehouse become functions on a record of tables.
  Library calls whose code is not part of the repository (the MD5 digest, pandas' numeric
  and datetime parsers) are parameters of the functions that call them.
\<close>

subsection \<open>Cells of a data frame\<close>

text \<open>
  The input is read with \<^verbatim>\<open>dtype=str\<close>: a cell holds a Python \<^verbatim>\<open>str\<close>, or \<^verbatim>\<open>NaN\<close> where the
  file has no value, or \<^verbatim>\<open>None\<close> where \<^verbatim>\<open>main\<close> synthesises a missing column
  (\<^verbatim>\<open>df[required] = None\<close>). A \<^verbatim>\<open>str\<close> is represented by its UTF-8 bytes, so that
  \<^verbatim>\<open>encode("utf-8", errors="ignore")\<close> is the identity (the option only drops lone
  surrogates, which text decoded from a file never holds).
\<close>

datatype cell = NaN | PyNone | Str string

datatype py_error = ValueError

text \<open>\<^verbatim>\<open>f"{x}"\<close> and \<^verbatim>\<open>astype(str)\<close>: the text a cell is rendered as.\<close>

fun format_cell :: "cell \<Rightarrow> string" where
  "format_cell NaN = ''nan''"
| "format_cell PyNone = ''None''"
| "format_cell (Str s) = s"

subsection \<open>\<^verbatim>\<open>stable_customer_id\<close>\<close>

text \<open>
  \<^verbatim>\<open>
  def stable_customer_id(name, addr, postal) -> int:
      raw = f"{name}|{addr}|{postal}".encode("utf-8", errors="ignore")
      h = hashlib.md5(raw).hexdigest()[:16]
      v = int(h, 16)
      signed63_mask = (1 << 63) - 1
      return v & signed63_mask
  \<close>
  The digest function is a parameter \<open>md5\<close>; it returns the 128-bit digest read as a
  big-endian number, which is what \<^verbatim>\<open>hexdigest\<close> prints with 32 lower-case hex digits.
  \<^verbatim>\<open>int(h, 16)\<close> raises \<^verbatim>\<open>ValueError\<close> on the empty string and on a character that
  is no hex digit.
\<close>

definition hexdigits :: string where
  "hexdigits = ''0123456789abcdef''"

definition hexdigest :: "128 word \<Rightarrow> string" where
  "hexdigest w = map (\<lambda>i. hexdigits ! ((unat w div 16 ^ (31 - i)) mod 16)) [0..<32]"

definition hex_value :: "char \<Rightarrow> nat option" where
  "hex_value c =
     (let n = (of_char c :: nat) in
      if 48 \<le> n \<and> n \<le> 57 then Some (n - 48)
      else if 97 \<le> n \<and> n \<le> 102 then Some (n - 87)
      else if 65 \<le> n \<and> n \<le> 70 then Some (n - 55)
      else None)"

fun int_of_hex :: "int \<Rightarrow> string \<Rightarrow> py_error + int" where
  "int_of_hex acc [] = Inr acc"
| "int_of_hex acc (c # cs) =
     (case hex_value c of
        None \<Rightarrow> Inl ValueError
      | Some d \<Rightarrow> int_of_hex (16 * acc + int d) cs)"

definition py_int16 :: "string \<Rightarrow> py_error + int" where
  "py_int16 s = (if s = [] then Inl ValueError else int_of_hex 0 s)"

definition signed63_mask :: int where
  "signed63_mask = push_bit 63 1 - 1"

definition customer_key :: "cell \<Rightarrow> cell \<Rightarrow> cell \<Rightarrow> string" where
  "customer_key name addr postal =
     format_cell name @ ''|'' @ format_cell addr @ ''|'' @ format_cell postal"

definition stable_customer_id ::
  "(string \<Rightarrow> 128 word) \<Rightarrow> cell \<Rightarrow> cell \<Rightarrow> cell \<Rightarrow> py_error + int" where
  "stable_customer_id md5 name addr postal =
     (let raw = customer_key name addr postal;
          h = take 16 (hexdigest (md5 raw))
      in case py_int16 h of
           Inl e \<Rightarrow> Inl e
         | Inr v \<Rightarrow> Inr (v AND signed63_mask))"

subsection \<open>\<^verbatim>\<open>strip_units_to_float\<close>\<close>

text \<open>
  \<^verbatim>\<open>
  def strip_units_to_float(s: pd.Series) -> pd.Series:
      return s.astype(str).str.extract(r"([0-9]+(?:\.[0-9]+)?)")[0].astype(float, errors="ignore")
  \<close>
  \<^verbatim>\<open>str.extract\<close> searches each text for the first match of the pattern and gives group 1,
  or a missing value where nothing matches. The search succeeds at the first digit: there
  \<^verbatim>\<open>[0-9]+\<close> takes the whole run of digits, and the optional group takes a dot and the
  digits after it when at least one digit follows the dot. \<^verbatim>\<open>astype(float)\<close> then reads
  the numeral; its value is given here as an exact rational (the double that Python
  stores is the one nearest to it).
\<close>

definition is_digit :: "char \<Rightarrow> bool" where
  "is_digit c = (let n = (of_char c :: nat) in 48 \<le> n \<and> n \<le> 57)"

definition numeral_at :: "string \<Rightarrow> string" where
  "numeral_at s =
     (let ds = takeWhile is_digit s in
      case dropWhile is_digit s of
        [] \<Rightarrow> ds
      | c # r \<Rightarrow>
          if c = CHR ''.'' \<and> takeWhile is_digit r \<noteq> [] then ds @ c # takeWhile is_digit r
          else ds)"

fun extract_numeral :: "string \<Rightarrow> string option" where
  "extract_numeral [] = None"
| "extract_numeral (c # cs) =
     (if is_digit c then Some (numeral_at (c # cs)) else extract_numeral cs)"

definition nat_of_digits :: "string \<Rightarrow> nat" where
  "nat_of_digits s = foldl (\<lambda>a c. 10 * a + (of_char c - 48)) 0 s"

definition float_of_numeral :: "string \<Rightarrow> rat" where
  "float_of_numeral s =
     (let ip = takeWhile is_digit s;
          fp = drop (Suc (length ip)) s
      in of_nat (nat_of_digits ip) + of_nat (nat_of_digits fp) / 10 ^ length fp)"

definition strip_units_to_float :: "cell \<Rightarrow> rat option" where
  "strip_units_to_float c = map_option float_of_numeral (extract_numeral (format_cell c))"

text \<open>
  The words of the specification: a decimal numeral is a non-empty run of digits,
  optionally followed by a dot and a second non-empty run of digits.
\<close>

definition decimal_numeral :: "string \<Rightarrow> bool" where
  "decimal_numeral n =
     (takeWhile is_digit n \<noteq> [] \<and>
      (case dropWhile is_digit n of
         [] \<Rightarrow> True
       | c # fs \<Rightarrow> c = CHR ''.'' \<and> fs \<noteq> [] \<and> list_all is_digit fs))"

subsection \<open>The quantity column\<close>




definition fillna :: "'a \<Rightarrow> 'a option \<Rightarrow> 'a" where
  "fillna d x = (case x of None \<Rightarrow> d | Some v \<Rightarrow> v)"








subsection \<open>Dates and timestamps\<close>

text \<open>
  A date is its number of days since 1970-01-01 and a timestamp its number of seconds
  since 1970-01-01 00:00:00, as pandas stores them; the calendar fields are computed from
  the day number (proleptic Gregorian calendar).
\<close>

type_synonym date = int
type_synonym timestamp = int

definition days_from_civil :: "int \<Rightarrow> int \<Rightarrow> int \<Rightarrow> date" where
  "days_from_civil y m d =
     (let y' = (if m \<le> 2 then y - 1 else y);
          era = y' div 400;
          yoe = y' - era * 400;
          mp = (m + 9) mod 12;
          doy = (153 * mp + 2) div 5 + d - 1;
          doe = yoe * 365 + yoe div 4 - yoe div 100 + doy
      in era * 146097 + doe - 719468)"

definition civil_from_days :: "date \<Rightarrow> int \<times> int \<times> int" where
  "civil_from_days z =
     (let z' = z + 719468;
          era = z' div 146097;
          doe = z' - era * 146097;
          yoe = (doe - doe div 1460 + doe div 36524 - doe div 146096) div 365;
          doy = doe - (365 * yoe + yoe div 4 - yoe div 100);
          mp = (5 * doy + 2) div 153;
          d = doy - (153 * mp + 2) div 5 + 1;
          m = (if mp < 10 then mp + 3 else mp - 9);
          y = yoe + era * 400 + (if m \<le> 2 then 1 else 0)
      in (y, m, d))"

text \<open>\<^verbatim>\<open>dayofweek\<close>: Monday is 0 and Sunday is 6; 1970-01-01 was a Thursday.\<close>

definition dayofweek :: "date \<Rightarrow> int" where
  "dayofweek z = (z + 3) mod 7"

datatype weekday = Monday | Tuesday | Wednesday | Thursday | Friday | Saturday | Sunday

definition weekday_of :: "date \<Rightarrow> weekday" where
  "weekday_of z = [Monday, Tuesday, Wednesday, Thursday, Friday, Saturday, Sunday] ! nat (dayofweek z)"

definition to_date :: "timestamp \<Rightarrow> date" where
  "to_date t = t div 86400"

definition month_names :: "string list" where
  "month_names = [''January'', ''February'', ''March'', ''April'', ''May'', ''June'', ''July'',
     ''August'', ''September'', ''October'', ''November'', ''December'']"

subsection \<open>\<^verbatim>\<open>parse_datetime_series\<close>\<close>

text \<open>
  \<^verbatim>\<open>
  def parse_datetime_series(s: pd.Series) -> pd.Series:
      if s is None:
          return s
      fmt = "%Y-%m-%d %H:%M:%S"
      try:
          return pd.to_datetime(s, format=fmt, errors="coerce")
      except Exception:
          return pd.to_datetime(s, errors="coerce", infer_datetime_format=True)
  \<close>
  \<^verbatim>\<open>pd.to_datetime\<close> with \<^verbatim>\<open>errors="coerce"\<close> parses cell by cell and stores a missing
  value where a cell does not parse; it does not raise for such a cell. The parser of one
  text is a parameter: \<open>strict\<close> for the call with the fixed format, \<open>infer\<close> for the call
  that infers the format.
\<close>

definition to_datetime_coerce ::
  "(string \<Rightarrow> timestamp option) \<Rightarrow> cell list \<Rightarrow> py_error + timestamp option list" where
  "to_datetime_coerce parse s = Inr (map (\<lambda>c. case c of Str v \<Rightarrow> parse v | _ \<Rightarrow> None) s)"

definition parse_datetime_series ::
  "(string \<Rightarrow> timestamp option) \<Rightarrow> (string \<Rightarrow> timestamp option) \<Rightarrow> cell list option
     \<Rightarrow> (py_error + timestamp option list) option" where
  "parse_datetime_series strict infer s =
     (case s of
        None \<Rightarrow> None
      | Some cells \<Rightarrow>
          Some (case to_datetime_coerce strict cells of
                  Inr r \<Rightarrow> Inr r
                | Inl e \<Rightarrow> to_datetime_coerce infer cells))"

text \<open>
  A parser for the fixed format to run the model on: exactly
  \<^verbatim>\<open>YYYY-MM-DD HH:MM:SS\<close>, zero-padded, with fields of a valid date and time.
\<close>

definition digits_value :: "string \<Rightarrow> int option" where
  "digits_value s = (if s \<noteq> [] \<and> list_all is_digit s then Some (int (nat_of_digits s)) else None)"

definition is_leap :: "int \<Rightarrow> bool" where
  "is_leap y = (y mod 4 = 0 \<and> (y mod 100 \<noteq> 0 \<or> y mod 400 = 0))"

definition days_in_month :: "int \<Rightarrow> int \<Rightarrow> int" where
  "days_in_month y m =
     (if m = 2 then (if is_leap y then 29 else 28)
      else if m = 4 \<or> m = 6 \<or> m = 9 \<or> m = 11 then 30 else 31)"

definition strptime_ymd_hms :: "string \<Rightarrow> timestamp option" where
  "strptime_ymd_hms s =
     (if length s = 19 \<and> s ! 4 = CHR ''-'' \<and> s ! 7 = CHR ''-'' \<and> s ! 10 = CHR '' ''
         \<and> s ! 13 = CHR '':'' \<and> s ! 16 = CHR '':''
      then
        (case (digits_value (take 4 s), digits_value (take 2 (drop 5 s)),
               digits_value (take 2 (drop 8 s)), digits_value (take 2 (drop 11 s)),
               digits_value (take 2 (drop 14 s)), digits_value (take 2 (drop 17 s))) of
           (Some y, Some m, Some d, Some hh, Some mm, Some ss) \<Rightarrow>
             if 1 \<le> m \<and> m \<le> 12 \<and> 1 \<le> d \<and> d \<le> days_in_month y m
                \<and> hh < 24 \<and> mm < 60 \<and> ss < 60
             then Some (days_from_civil y m d * 86400 + hh * 3600 + mm * 60 + ss)
             else None
         | _ \<Rightarrow> None)
      else None)"

subsection \<open>The warehouse\<close>

text \<open>
  The tables that the SQL of \<^verbatim>\<open>main\<close> reads and writes, each a list of rows; a nullable
  column is an \<open>option\<close>. Of the staging table only the columns that the statements below
  read are kept. \<^verbatim>\<open>IDENTITY(1,1)\<close> columns take their values from a counter kept with the
  tables. Character columns are compared as equal texts. \<^verbatim>\<open>CREATE TABLE\<close> under
  \<^verbatim>\<open>IF NOT EXISTS\<close> changes no row and is left out.
\<close>

record stg_row =
  orderNo :: "string option"
  commercePlatform :: "string option"
  postalCode :: "string option"
  createTime :: "timestamp option"
  submitTime :: "timestamp option"
  goodsNumber :: "int option"
  customer_id :: "int option"
  state_code :: "string option"
  product_key :: "string option"

record platform_row =
  platform_id :: int
  platform_name :: string

record product_row =
  product_id :: int
  main_sku_code :: string
  english_name :: "string option"
  chinese_name :: "string option"
  customer_code :: "string option"
  category :: "string option"

record customer_row =
  c_customer_id :: int
  c_gender :: "string option"
  c_state_code :: "string option"
  c_postal_code :: "string option"

record date_row =
  date_id :: date
  year :: int
  quarter :: int
  month :: int
  month_name :: string
  day :: int
  day_of_week :: int
  is_weekend :: int

record fact_values =
  order_id :: "string option"
  f_date_id :: "date option"
  f_product_id :: "int option"
  f_customer_id :: "int option"
  f_platform_id :: "int option"
  units :: int
  revenue :: rat
  f_state_code :: "string option"

record fact_row = fact_values +
  fact_id :: int

record warehouse =
  stg_order_export_raw :: "stg_row list"
  dim_platform :: "platform_row list"
  dim_product :: "product_row list"
  dim_customer :: "customer_row list"
  dim_date :: "date_row list"
  fact_sales :: "fact_row list"
  platform_identity :: int
  product_identity :: int
  fact_identity :: int

datatype sql_error = DuplicateKey

text \<open>Which timestamp is the sale date: \<^verbatim>\<open>FACT_DATE_SOURCE = "submitTime"  # or "createTime"\<close>.\<close>

datatype date_source = SubmitTime | CreateTime

definition FACT_DATE_SOURCE :: date_source where
  "FACT_DATE_SOURCE = SubmitTime"

definition dt_col :: "date_source \<Rightarrow> stg_row \<Rightarrow> timestamp option" where
  "dt_col src r = (case src of SubmitTime \<Rightarrow> submitTime r | CreateTime \<Rightarrow> createTime r)"

subsection \<open>Step 4: \<^verbatim>\<open>dim_platform\<close>\<close>

text \<open>
  \<^verbatim>\<open>
  INSERT INTO dim_platform (platform_name)
  SELECT DISTINCT s.commercePlatform
  FROM stg_order_export_raw s
  WHERE s.commercePlatform IS NOT NULL AND s.commercePlatform <> ''
    AND NOT EXISTS (SELECT 1 FROM dim_platform dp WHERE dp.platform_name = s.commercePlatform);
  \<close>
  The order of the selected rows is the engine's. \<^verbatim>\<open>platform_name\<close> is \<^verbatim>\<open>UNIQUE\<close>: a
  statement that would store a name twice fails and stores nothing.
\<close>

definition new_platform_names :: "warehouse \<Rightarrow> string list" where
  "new_platform_names db =
     remdups (filter (\<lambda>n. n \<noteq> [] \<and> \<not> (\<exists>dp\<in>set (dim_platform db). platform_name dp = n))
                (List.map_filter commercePlatform (stg_order_export_raw db)))"

definition upsert_dim_platform :: "warehouse \<Rightarrow> sql_error + warehouse" where
  "upsert_dim_platform db =
     (let names = new_platform_names db;
          rows = map (\<lambda>(i, n). \<lparr>platform_id = platform_identity db + int i, platform_name = n\<rparr>)
                   (enumerate 0 names);
          tbl = dim_platform db @ rows
      in if distinct (map platform_name tbl)
         then Inr (db\<lparr>dim_platform := tbl,
                       platform_identity := platform_identity db + int (length names)\<rparr>)
         else Inl DuplicateKey)"

subsection \<open>Step 5: \<^verbatim>\<open>dim_product\<close>\<close>

text \<open>
  \<^verbatim>\<open>
  INSERT INTO dim_product (main_sku_code, english_name, chinese_name, customer_code, category)
  SELECT DISTINCT s.product_key, NULL, NULL, NULL, NULL
  FROM stg_order_export_raw s
  WHERE s.product_key IS NOT NULL AND s.product_key <> ''
    AND NOT EXISTS (SELECT 1 FROM dim_product p WHERE p.main_sku_code = s.product_key);
  \<close>
\<close>

definition new_product_keys :: "warehouse \<Rightarrow> string list" where
  "new_product_keys db =
     remdups (filter (\<lambda>k. k \<noteq> [] \<and> \<not> (\<exists>p\<in>set (dim_product db). main_sku_code p = k))
                (List.map_filter product_key (stg_order_export_raw db)))"

definition insert_dim_product :: "warehouse \<Rightarrow> sql_error + warehouse" where
  "insert_dim_product db =
     (let keys = new_product_keys db;
          rows = map (\<lambda>(i, k). \<lparr>product_id = product_identity db + int i, main_sku_code = k,
                                  english_name = None, chinese_name = None,
                                  customer_code = None, category = None\<rparr>)
                   (enumerate 0 keys);
          tbl = dim_product db @ rows
      in if distinct (map main_sku_code tbl)
         then Inr (db\<lparr>dim_product := tbl,
                       product_identity := product_identity db + int (length keys)\<rparr>)
         else Inl DuplicateKey)"

subsection \<open>Step 6: \<^verbatim>\<open>dim_customer\<close>\<close>

text \<open>
  \<^verbatim>\<open>
  INSERT INTO dim_customer (customer_id, gender, state_code, postal_code)
  SELECT DISTINCT s.customer_id, 'Unknown', s.state_code, s.postalCode
  FROM stg_order_export_raw s
  WHERE s.customer_id IS NOT NULL
    AND NOT EXISTS (SELECT 1 FROM dim_customer c WHERE c.customer_id = s.customer_id);
  \<close>
  \<^verbatim>\<open>DISTINCT\<close> is over the three selected columns, and \<^verbatim>\<open>customer_id\<close> is the primary
  key: staged rows of one new customer that differ in state or postal code make the
  statement fail.
\<close>

definition staged_customers :: "stg_row list \<Rightarrow> (int \<times> string option \<times> string option) list" where
  "staged_customers stg =
     remdups (List.map_filter
                (\<lambda>s. map_option (\<lambda>cid. (cid, state_code s, postalCode s)) (customer_id s)) stg)"

definition new_customers :: "warehouse \<Rightarrow> customer_row list" where
  "new_customers db =
     map (\<lambda>(cid, st, po). \<lparr>c_customer_id = cid, c_gender = Some ''Unknown'',
                             c_state_code = st, c_postal_code = po\<rparr>)
       (filter (\<lambda>(cid, st, po). \<not> (\<exists>c\<in>set (dim_customer db). c_customer_id c = cid))
          (staged_customers (stg_order_export_raw db)))"

definition insert_dim_customer :: "warehouse \<Rightarrow> sql_error + warehouse" where
  "insert_dim_customer db =
     (let tbl = dim_customer db @ new_customers db
      in if distinct (map c_customer_id tbl)
         then Inr (db\<lparr>dim_customer := tbl\<rparr>)
         else Inl DuplicateKey)"

text \<open>
  \<^verbatim>\<open>
  UPDATE c
  SET c.state_code = s.state_code,
      c.postal_code = s.postalCode
  FROM dim_customer c
  INNER JOIN (
      SELECT DISTINCT customer_id, state_code, postalCode
      FROM stg_order_export_raw
      WHERE customer_id IS NOT NULL
  ) s ON c.customer_id = s.customer_id
  WHERE c.state_code IS NULL OR c.postal_code IS NULL;
  \<close>
  Where several rows of \<open>s\<close> join one customer, the engine takes the values of one of
  them; \<open>sel\<close> gives, for a customer, the position of that row among the joined ones
  (read modulo their number), so that every choice of the engine is some \<open>sel\<close>.
\<close>

definition update_customer_row ::
  "(int \<Rightarrow> nat) \<Rightarrow> (int \<times> string option \<times> string option) list \<Rightarrow> customer_row \<Rightarrow> customer_row" where
  "update_customer_row sel s c =
     (if c_state_code c = None \<or> c_postal_code c = None then
        (case filter (\<lambda>(cid, st, po). cid = c_customer_id c) s of
           [] \<Rightarrow> c
         | m # ms \<Rightarrow>
             (case (m # ms) ! (sel (c_customer_id c) mod length (m # ms)) of
                (cid, st, po) \<Rightarrow> c\<lparr>c_state_code := st, c_postal_code := po\<rparr>))
      else c)"

definition update_dim_customer :: "(int \<Rightarrow> nat) \<Rightarrow> warehouse \<Rightarrow> warehouse" where
  "update_dim_customer sel db =
     db\<lparr>dim_customer :=
          map (update_customer_row sel (staged_customers (stg_order_export_raw db)))
            (dim_customer db)\<rparr>"

text \<open>Both statements run in one transaction: a failed insert leaves nothing to update.\<close>

definition upsert_dim_customer :: "(int \<Rightarrow> nat) \<Rightarrow> warehouse \<Rightarrow> sql_error + warehouse" where
  "upsert_dim_customer sel db =
     (case insert_dim_customer db of
        Inl e \<Rightarrow> Inl e
      | Inr db' \<Rightarrow> Inr (update_dim_customer sel db'))"

text \<open>
  Steps 4 to 6 as \<^verbatim>\<open>main\<close> runs them: each in a transaction of its own, so an error leaves
  the earlier steps committed and ends the run. The result is the warehouse as the run
  leaves it, with the error if one was raised.
\<close>

definition upsert_dimensions :: "(int \<Rightarrow> nat) \<Rightarrow> warehouse \<Rightarrow> warehouse \<times> sql_error option" where
  "upsert_dimensions sel db =
     (case upsert_dim_platform db of
        Inl e \<Rightarrow> (db, Some e)
      | Inr db1 \<Rightarrow>
          (case insert_dim_product db1 of
             Inl e \<Rightarrow> (db1, Some e)
           | Inr db2 \<Rightarrow>
               (case upsert_dim_customer sel db2 of
                  Inl e \<Rightarrow> (db2, Some e)
                | Inr db3 \<Rightarrow> (db3, None))))"

subsection \<open>Step 7: \<^verbatim>\<open>ensure_dim_date\<close>\<close>

text \<open>
  \<^verbatim>\<open>
  def ensure_dim_date(engine, min_date: datetime, max_date: datetime):
      if pd.isna(min_date) or pd.isna(max_date):
          return
      min_date = min_date.date()
      max_date = max_date.date()
      dates = pd.date_range(min_date, max_date, freq="D")
      df = pd.DataFrame({"date_id": dates.date})
      df["year"] = dates.year
      df["quarter"] = ((dates.month - 1) // 3) + 1
      df["month"] = dates.month
      df["month_name"] = dates.strftime("%B")
      df["day"] = dates.day
      df["day_of_week"] = dates.dayofweek + 1
      df["is_weekend"] = (dates.dayofweek >= 5).astype(int)
      ...
      MERGE INTO dim_date AS target
      USING #tmp_dim_date AS src
      ON target.date_id = src.date_id
      WHEN NOT MATCHED THEN
        INSERT (date_id, year, quarter, month, month_name, day, day_of_week, is_weekend)
        VALUES (src.date_id, src.year, ...);
  \<close>
  \<^verbatim>\<open>date_id\<close> is the primary key of \<^verbatim>\<open>dim_date\<close>.
\<close>

definition date_range :: "date \<Rightarrow> date \<Rightarrow> date list" where
  "date_range lo hi = [lo..hi]"

definition date_point :: "date \<Rightarrow> date_row" where
  "date_point d =
     (case civil_from_days d of
        (y, m, dd) \<Rightarrow>
          \<lparr>date_id = d, year = y, quarter = ((m - 1) div 3) + 1, month = m,
           month_name = month_names ! nat (m - 1), day = dd,
           day_of_week = dayofweek d + 1,
           is_weekend = (if dayofweek d \<ge> 5 then 1 else 0)\<rparr>)"

definition dim_date_frame :: "date \<Rightarrow> date \<Rightarrow> date_row list" where
  "dim_date_frame lo hi = map date_point (date_range lo hi)"

definition merge_dim_date :: "date_row list \<Rightarrow> date_row list \<Rightarrow> date_row list" where
  "merge_dim_date target src =
     target @ filter (\<lambda>s. \<not> (\<exists>t\<in>set target. date_id t = date_id s)) src"

definition ensure_dim_date ::
  "warehouse \<Rightarrow> timestamp option \<Rightarrow> timestamp option \<Rightarrow> sql_error + warehouse" where
  "ensure_dim_date db min_date max_date =
     (case (min_date, max_date) of
        (Some lo, Some hi) \<Rightarrow>
          (let df = dim_date_frame (to_date lo) (to_date hi);
               tbl = merge_dim_date (dim_date db) df
           in if distinct (map date_id tbl)
              then Inr (db\<lparr>dim_date := tbl\<rparr>)
              else Inl DuplicateKey)
      | _ \<Rightarrow> Inr db)"

subsection \<open>Step 8: \<^verbatim>\<open>fact_sales\<close>\<close>

text \<open>
  \<^verbatim>\<open>
  INSERT INTO fact_sales (order_id, date_id, product_id, customer_id, platform_id,
                          units, revenue, state_code)
  SELECT r.orderNo, CONVERT(date, r.{dt_col}), p.product_id, r.customer_id, pl.platform_id,
         COALESCE(r.goodsNumber, 1), 0.00, r.state_code
  FROM stg_order_export_raw r
  LEFT JOIN dim_platform pl ON pl.platform_name = r.commercePlatform
  LEFT JOIN dim_product p ON p.main_sku_code = r.product_key
  WHERE r.{dt_col} IS NOT NULL
    AND r.commercePlatform IS NOT NULL
    AND r.product_key IS NOT NULL
    AND pl.platform_id IS NOT NULL
    AND p.product_id IS NOT NULL;
  \<close>
  A left join gives every joined row of the right table, or one row of nulls where none
  joins.
\<close>

definition left_join :: "('b \<Rightarrow> bool) \<Rightarrow> 'b list \<Rightarrow> 'b option list" where
  "left_join on tbl = (case filter on tbl of [] \<Rightarrow> [None] | m # ms \<Rightarrow> map Some (m # ms))"

definition select_fact_rows :: "date_source \<Rightarrow> warehouse \<Rightarrow> stg_row \<Rightarrow> fact_values list" where
  "select_fact_rows src db r =
     concat (map (\<lambda>pl.
       concat (map (\<lambda>p.
         if dt_col src r \<noteq> None \<and> commercePlatform r \<noteq> None \<and> product_key r \<noteq> None
            \<and> map_option platform_id pl \<noteq> None \<and> map_option product_id p \<noteq> None
         then [\<lparr>order_id = orderNo r,
                 f_date_id = map_option to_date (dt_col src r),
                 f_product_id = map_option product_id p,
                 f_customer_id = customer_id r,
                 f_platform_id = map_option platform_id pl,
                 units = fillna 1 (goodsNumber r),
                 revenue = 0,
                 f_state_code = state_code r\<rparr>]
         else [])
         (left_join (\<lambda>p. Some (main_sku_code p) = product_key r) (dim_product db))))
       (left_join (\<lambda>pl. Some (platform_name pl) = commercePlatform r) (dim_platform db)))"

definition insert_fact_sales :: "date_source \<Rightarrow> warehouse \<Rightarrow> warehouse" where
  "insert_fact_sales src db =
     (let vals = concat (map (select_fact_rows src db) (stg_order_export_raw db));
          rows = map (\<lambda>(i, v). fact_values.extend v (fact_row.fields (fact_identity db + int i)))
                   (enumerate 0 vals)
      in db\<lparr>fact_sales := fact_sales db @ rows,
              fact_identity := fact_identity db + int (length vals)\<rparr>)"

text \<open>
  The keys that the schema declares: \<^verbatim>\<open>platform_name VARCHAR(50) NOT NULL UNIQUE\<close>,
  \<^verbatim>\<open>main_sku_code VARCHAR(120) NOT NULL UNIQUE\<close>, \<^verbatim>\<open>customer_id BIGINT PRIMARY KEY\<close>.
\<close>

definition natural_keys_unique :: "warehouse \<Rightarrow> bool" where
  "natural_keys_unique db =
     (distinct (map platform_name (dim_platform db))
      \<and> distinct (map main_sku_code (dim_product db))
      \<and> distinct (map c_customer_id (dim_customer db)))"

subsection \<open>The product master load (\<^verbatim>\<open>product_info_etl.py\<close>)\<close>

text \<open>
  \<^verbatim>\<open>
  UPDATE p
  SET p.english_name = COALESCE(s.english_name, p.english_name),
      p.chinese_name = COALESCE(s.chinese_name, p.chinese_name),
      p.customer_code = COALESCE(s.customer_code, p.customer_code),
      p.category = COALESCE(s.category, p.category)
  FROM dim_product p
  INNER JOIN stg_product_master s ON p.main_sku_code = s.main_sku_code
  WHERE s.english_name IS NOT NULL OR s.chinese_name IS NOT NULL
     OR s.customer_code IS NOT NULL OR s.category IS NOT NULL;
  \<close>
  As for the customers, \<open>sel\<close> is the engine's choice among several joined rows.
\<close>

record product_master_row =
  pm_main_sku_code :: string
  pm_english_name :: "string option"
  pm_chinese_name :: "string option"
  pm_customer_code :: "string option"
  pm_category :: "string option"

definition coalesce :: "'a option \<Rightarrow> 'a option \<Rightarrow> 'a option" where
  "coalesce a b = (case a of Some x \<Rightarrow> Some x | None \<Rightarrow> b)"

definition update_product_row ::
  "(string \<Rightarrow> nat) \<Rightarrow> product_master_row list \<Rightarrow> product_row \<Rightarrow> product_row" where
  "update_product_row sel stg p =
     (case filter (\<lambda>s. main_sku_code p = pm_main_sku_code s
                       \<and> (pm_english_name s \<noteq> None \<or> pm_chinese_name s \<noteq> None
                            \<or> pm_customer_code s \<noteq> None \<or> pm_category s \<noteq> None)) stg of
        [] \<Rightarrow> p
      | m # ms \<Rightarrow>
          (let s = (m # ms) ! (sel (main_sku_code p) mod length (m # ms))
           in p\<lparr>english_name := coalesce (pm_english_name s) (english_name p),
                 chinese_name := coalesce (pm_chinese_name s) (chinese_name p),
                 customer_code := coalesce (pm_customer_code s) (customer_code p),
                 category := coalesce (pm_category s) (category p)\<rparr>))"

subsection \<open>The warehouse before the first run\<close>

text \<open>The tables as \<^verbatim>\<open>CREATE TABLE\<close> leaves them: no rows, every identity at its seed 1.\<close>

definition empty_warehouse :: warehouse where
  "empty_warehouse =
     \<lparr>stg_order_export_raw = [], dim_platform = [], dim_product = [], dim_customer = [],
      dim_date = [], fact_sales = [],
      platform_identity = 1, product_identity = 1, fact_identity = 1\<rparr>"

section \<open>Properties\<close>

subsection \<open>The customer identity\<close>

lemma hex_value_hexdigits: "d < 16 \<Longrightarrow> hex_value (hexdigits ! d) = Some d"
proof -
  assume "d < 16"
  then have "d = 0 \<or> d = 1 \<or> d = 2 \<or> d = 3 \<or> d = 4 \<or> d = 5 \<or> d = 6 \<or> d = 7 \<or> d = 8
      \<or> d = 9 \<or> d = 10 \<or> d = 11 \<or> d = 12 \<or> d = 13 \<or> d = 14 \<or> d = 15"
    by arith
  then show ?thesis
    by (auto simp: hex_value_def hexdigits_def)
qed

lemma int_of_hex_digits:
  "\<forall>d\<in>set ds. d < 16 \<Longrightarrow>
   int_of_hex acc (map (\<lambda>d. hexdigits ! d) ds) = Inr (foldl (\<lambda>a d. 16 * a + int d) acc ds)"
  by (induction ds arbitrary: acc) (simp_all add: hex_value_hexdigits)

lemma foldl_nibbles:
  fixes n :: nat
  assumes n: "n < 16 ^ 32"
  shows "k \<le> 32 \<Longrightarrow>
    foldl (\<lambda>a d. 16 * a + int d) 0 (map (\<lambda>i. (n div 16 ^ (31 - i)) mod 16) [0..<k])
      = int (n div 16 ^ (32 - k))"
proof (induction k)
  case 0
  then show ?case using n by simp
next
  case (Suc k)
  then have k: "k < 32" by simp
  have e: "32 - k = Suc (31 - k)" using k by simp
  have "n div 16 ^ (32 - k) = (n div 16 ^ (31 - k)) div 16"
    unfolding e by (simp add: div_mult2_eq [symmetric] mult.commute)
  moreover have "16 * int (y div 16) + int (y mod 16) = int y" for y :: nat
    by presburger
  ultimately show ?case using Suc k
    by simp
qed

lemma and_signed63: "v AND signed63_mask = v mod 2 ^ 63"
  unfolding signed63_mask_def
  by (metis mask_eq_exp_minus_1 push_bit_of_1 take_bit_eq_mask take_bit_eq_mod)

lemma py_int16_hexdigest:
  "py_int16 (take 16 (hexdigest w)) = Inr (int (unat w div 2 ^ 64))"
proof -
  have lt: "unat w < 16 ^ 32"
    using unsigned_less [of w, where 'a = nat] by simp
  have t: "take 16 (hexdigest w)
      = map (\<lambda>d. hexdigits ! d) (map (\<lambda>i. (unat w div 16 ^ (31 - i)) mod 16) [0..<16])"
    by (simp add: hexdigest_def take_map)
  have ne: "take 16 (hexdigest w) \<noteq> []"
    by (simp add: hexdigest_def)
  have "int_of_hex 0 (take 16 (hexdigest w))
      = Inr (foldl (\<lambda>a d. 16 * a + int d) 0
               (map (\<lambda>i. (unat w div 16 ^ (31 - i)) mod 16) [0..<16]))"
    unfolding t by (rule int_of_hex_digits) auto
  also have "\<dots> = Inr (int (unat w div 16 ^ (32 - 16)))"
    using foldl_nibbles [OF lt, of 16] by simp
  finally show ?thesis using ne
    by (simp add: py_int16_def)
qed

lemma leading_slice_bound: "int (unat (w :: 128 word) div 2 ^ 64) < 2 ^ 64"
proof -
  have "unat w < 2 ^ 64 * 2 ^ 64"
    using unsigned_less [of w, where 'a = nat] by simp
  then have "unat w div 2 ^ 64 < 2 ^ 64"
    by (simp add: less_mult_imp_div_less)
  then show ?thesis
    by (metis of_nat_less_iff of_nat_numeral of_nat_power)
qed

text \<open>
  Claim C2. For every (name, address, postal) triple and every digest function,
  \<open>stable_customer_id\<close> returns a value (the conversion of the hex slice never fails),
  and that value is a fixed function of the three rendered fields joined by \<open>|\<close>: the
  leading 16 hex digits of the digest read as an unsigned number \<open>u < 2^64\<close>, masked to
  63 bits. It therefore lies in \<open>[0, 2^63 - 1]\<close>. The model has no state, so two calls on
  the same triple give the same value.
\<close>

theorem stable_customer_id_range:
  "\<exists>u v. py_int16 (take 16 (hexdigest (md5 (customer_key name addr postal)))) = Inr u
     \<and> 0 \<le> u \<and> u < 2 ^ 64
     \<and> stable_customer_id md5 name addr postal = Inr v
     \<and> v = u AND signed63_mask
     \<and> v = u mod 2 ^ 63
     \<and> 0 \<le> v \<and> v \<le> 2 ^ 63 - 1"
proof -
  let ?u = "int (unat (md5 (customer_key name addr postal)) div 2 ^ 64)"
  have u: "py_int16 (take 16 (hexdigest (md5 (customer_key name addr postal)))) = Inr ?u"
    by (rule py_int16_hexdigest)
  have v: "stable_customer_id md5 name addr postal = Inr (?u AND signed63_mask)"
    by (simp add: stable_customer_id_def u)
  have m: "?u AND signed63_mask = ?u mod 2 ^ 63"
    by (rule and_signed63)
  have b: "0 \<le> ?u mod 2 ^ 63" "?u mod 2 ^ 63 \<le> 2 ^ 63 - 1"
    by simp_all
  have "0 \<le> ?u" by simp
  with u v m b leading_slice_bound [of "md5 (customer_key name addr postal)"]
  show ?thesis by metis
qed

text \<open>
  Claim C9. Distinct triples can give the same identity with no hash collision involved,
  because they are rendered to the same bytes before hashing: a missing field
  (\<^verbatim>\<open>None\<close>) is rendered as the text \<open>None\<close>, and the delimiter is not escaped inside a
  field.
\<close>

theorem stable_customer_id_merges_distinct_triples:
  "PyNone \<noteq> Str ''None''
   \<and> customer_key PyNone addr postal = customer_key (Str ''None'') addr postal
   \<and> stable_customer_id md5 PyNone addr postal = stable_customer_id md5 (Str ''None'') addr postal
   \<and> (Str ''a|b'', Str ''c'') \<noteq> (Str ''a'', Str ''b|c'')
   \<and> customer_key (Str ''a|b'') (Str ''c'') p = customer_key (Str ''a'') (Str ''b|c'') p
   \<and> stable_customer_id md5 (Str ''a|b'') (Str ''c'') p
       = stable_customer_id md5 (Str ''a'') (Str ''b|c'') p"
  by (simp add: stable_customer_id_def customer_key_def)

subsection \<open>Unit-suffixed numbers\<close>

lemma not_digit_dot: "\<not> is_digit CHR ''.''"
  by (simp add: is_digit_def)

lemma numeral_at_cases:
  "numeral_at s = takeWhile is_digit s \<or>
   (\<exists>r. dropWhile is_digit s = CHR ''.'' # r \<and> takeWhile is_digit r \<noteq> []
        \<and> numeral_at s = takeWhile is_digit s @ CHR ''.'' # takeWhile is_digit r)"
  by (auto simp: numeral_at_def Let_def split: list.splits)

lemma numeral_at_prefix: "\<exists>rest. numeral_at s @ rest = s"
proof -
  from numeral_at_cases [of s] show ?thesis
  proof
    assume "numeral_at s = takeWhile is_digit s"
    then have "numeral_at s @ dropWhile is_digit s = s" by simp
    then show ?thesis by (rule exI)
  next
    assume "\<exists>r. dropWhile is_digit s = CHR ''.'' # r \<and> takeWhile is_digit r \<noteq> []
        \<and> numeral_at s = takeWhile is_digit s @ CHR ''.'' # takeWhile is_digit r"
    then obtain r where r: "dropWhile is_digit s = CHR ''.'' # r"
      and n: "numeral_at s = takeWhile is_digit s @ CHR ''.'' # takeWhile is_digit r"
      by blast
    have "numeral_at s @ dropWhile is_digit r
        = takeWhile is_digit s @ CHR ''.'' # (takeWhile is_digit r @ dropWhile is_digit r)"
      by (simp add: n)
    also have "\<dots> = takeWhile is_digit s @ dropWhile is_digit s"
      by (simp add: r)
    also have "\<dots> = s" by simp
    finally show ?thesis by (rule exI)
  qed
qed

lemma takeWhile_digits_dot:
  assumes "\<forall>x\<in>set ds. is_digit x"
  shows "takeWhile is_digit (ds @ CHR ''.'' # r) = ds"
    and "dropWhile is_digit (ds @ CHR ''.'' # r) = CHR ''.'' # r"
proof -
  have a: "\<And>x. x \<in> set ds \<Longrightarrow> is_digit x" using assms by blast
  show "takeWhile is_digit (ds @ CHR ''.'' # r) = ds"
    by (simp add: takeWhile_append2 [OF a] not_digit_dot)
  show "dropWhile is_digit (ds @ CHR ''.'' # r) = CHR ''.'' # r"
    by (simp add: dropWhile_append2 [OF a] not_digit_dot)
qed

lemma takeWhile_all_digits: "\<forall>x\<in>set (takeWhile is_digit s). is_digit x"
  by (meson set_takeWhileD)

lemma decimal_plain:
  assumes "ds \<noteq> []" "\<forall>x\<in>set ds. is_digit x"
  shows "decimal_numeral ds"
proof -
  have tw: "takeWhile is_digit ds = ds" and dw: "dropWhile is_digit ds = []"
    using assms by simp_all
  show ?thesis unfolding decimal_numeral_def tw dw using assms(1) by simp
qed

lemma decimal_frac:
  assumes "ds \<noteq> []" "\<forall>x\<in>set ds. is_digit x" "fs \<noteq> []" "\<forall>x\<in>set fs. is_digit x"
  shows "decimal_numeral (ds @ CHR ''.'' # fs)"
  unfolding decimal_numeral_def takeWhile_digits_dot [OF assms(2)]
  using assms by (simp add: list_all_iff)

lemma numeral_at_decimal:
  assumes "is_digit c"
  shows "decimal_numeral (numeral_at (c # cs))"
proof -
  let ?s = "c # cs"
  have ds: "takeWhile is_digit ?s \<noteq> []" using assms by simp
  from numeral_at_cases [of ?s] show ?thesis
  proof
    assume "numeral_at ?s = takeWhile is_digit ?s"
    then show ?thesis
      using decimal_plain [OF ds takeWhile_all_digits] by simp
  next
    assume "\<exists>r. dropWhile is_digit ?s = CHR ''.'' # r \<and> takeWhile is_digit r \<noteq> []
        \<and> numeral_at ?s = takeWhile is_digit ?s @ CHR ''.'' # takeWhile is_digit r"
    then obtain r where fs: "takeWhile is_digit r \<noteq> []"
      and n: "numeral_at ?s = takeWhile is_digit ?s @ CHR ''.'' # takeWhile is_digit r"
      by blast
    show ?thesis
      unfolding n by (rule decimal_frac [OF ds takeWhile_all_digits fs takeWhile_all_digits])
  qed
qed

lemma length_takeWhile_numeral_at: "length (takeWhile is_digit s) \<le> length (numeral_at s)"
  using numeral_at_cases [of s] by auto

lemma decimal_numeral_cases:
  assumes "decimal_numeral m"
  shows "(m \<noteq> [] \<and> (\<forall>x\<in>set m. is_digit x)) \<or>
         (\<exists>ds fs. ds @ CHR ''.'' # fs = m \<and> ds \<noteq> [] \<and> (\<forall>x\<in>set ds. is_digit x)
              \<and> fs \<noteq> [] \<and> (\<forall>x\<in>set fs. is_digit x))"
proof (cases "dropWhile is_digit m")
  case Nil
  then have "\<forall>x\<in>set m. is_digit x" by simp
  moreover have "m \<noteq> []" using assms by (auto simp: decimal_numeral_def)
  ultimately show ?thesis by blast
next
  case (Cons d fs)
  have d: "d = CHR ''.''" and fs: "fs \<noteq> []" "\<forall>x\<in>set fs. is_digit x"
    using assms unfolding decimal_numeral_def Cons by (simp_all add: list_all_iff)
  have "takeWhile is_digit m @ dropWhile is_digit m = m" by simp
  then have "takeWhile is_digit m @ CHR ''.'' # fs = m" unfolding Cons d .
  moreover have "takeWhile is_digit m \<noteq> []" using assms by (simp add: decimal_numeral_def)
  ultimately show ?thesis using fs takeWhile_all_digits by blast
qed

lemma numeral_at_longest:
  assumes m: "decimal_numeral m"
  shows "length m \<le> length (numeral_at (m @ t))"
proof -
  from decimal_numeral_cases [OF m] show ?thesis
  proof
    assume "m \<noteq> [] \<and> (\<forall>x\<in>set m. is_digit x)"
    then have a: "\<And>x. x \<in> set m \<Longrightarrow> is_digit x" by blast
    have "takeWhile is_digit (m @ t) = m @ takeWhile is_digit t"
      by (rule takeWhile_append2 [OF a])
    then have "length m \<le> length (takeWhile is_digit (m @ t))" by simp
    then show ?thesis
      using length_takeWhile_numeral_at [of "m @ t"] by linarith
  next
    assume "\<exists>ds fs. ds @ CHR ''.'' # fs = m \<and> ds \<noteq> [] \<and> (\<forall>x\<in>set ds. is_digit x)
              \<and> fs \<noteq> [] \<and> (\<forall>x\<in>set fs. is_digit x)"
    then obtain ds fs where meq: "ds @ CHR ''.'' # fs = m"
      and ds: "\<forall>x\<in>set ds. is_digit x" and fs: "fs \<noteq> []" "\<forall>x\<in>set fs. is_digit x"
      by blast
    have b: "\<And>x. x \<in> set fs \<Longrightarrow> is_digit x" using fs by blast
    have t2: "takeWhile is_digit (fs @ t) = fs @ takeWhile is_digit t"
      by (rule takeWhile_append2 [OF b])
    have "numeral_at (ds @ CHR ''.'' # (fs @ t)) = ds @ CHR ''.'' # fs @ takeWhile is_digit t"
      unfolding numeral_at_def takeWhile_digits_dot [OF ds] using fs(1) by (simp add: t2)
    then have "length (numeral_at (ds @ CHR ''.'' # (fs @ t))) = length (ds @ CHR ''.'' # fs) + length (takeWhile is_digit t)"
      by simp
    moreover have "m @ t = ds @ CHR ''.'' # (fs @ t)"
      unfolding meq [symmetric] by simp
    ultimately show ?thesis unfolding meq by simp
  qed
qed

lemma extract_numeral_None: "(extract_numeral s = None) = (\<forall>c\<in>set s. \<not> is_digit c)"
  by (induction s) auto

lemma extract_numeral_Some:
  "extract_numeral s = Some n \<Longrightarrow>
   \<exists>pre rest. pre @ n @ rest = s \<and> (\<forall>c\<in>set pre. \<not> is_digit c) \<and> decimal_numeral n
      \<and> (\<forall>m t. decimal_numeral m \<and> m @ t = n @ rest \<longrightarrow> length m \<le> length n)"
proof (induction s)
  case Nil
  then show ?case by simp
next
  case (Cons c cs)
  show ?case
  proof (cases "is_digit c")
    case True
    then have n: "numeral_at (c # cs) = n" using Cons.prems by simp
    obtain rest where r: "n @ rest = c # cs"
      using numeral_at_prefix [of "c # cs"] unfolding n by blast
    have dn: "decimal_numeral n" using numeral_at_decimal [OF True, of cs] unfolding n .
    have lg: "\<forall>m t. decimal_numeral m \<and> m @ t = n @ rest \<longrightarrow> length m \<le> length n"
    proof (intro allI impI)
      fix m t assume h: "decimal_numeral m \<and> m @ t = n @ rest"
      then have "length m \<le> length (numeral_at (m @ t))" using numeral_at_longest by blast
      also have "m @ t = c # cs" using h r by simp
      finally show "length m \<le> length n" unfolding n .
    qed
    have "[] @ n @ rest = c # cs \<and> (\<forall>c\<in>set []. \<not> is_digit c)" using r by simp
    with dn lg show ?thesis by blast
  next
    case False
    then have "extract_numeral cs = Some n" using Cons.prems by simp
    then obtain pre rest where p:
      "pre @ n @ rest = cs" "\<forall>c\<in>set pre. \<not> is_digit c" "decimal_numeral n"
      "\<forall>m t. decimal_numeral m \<and> m @ t = n @ rest \<longrightarrow> length m \<le> length n"
      using Cons.IH by blast
    have "(c # pre) @ n @ rest = c # cs \<and> (\<forall>x\<in>set (c # pre). \<not> is_digit x)"
      using p(1,2) False by simp
    with p(3,4) show ?thesis by blast
  qed
qed

lemma strip_units_examples:
  "strip_units_to_float (Str ''8.9523ft3'') = Some (89523 / 10000)"
  "strip_units_to_float (Str ''78.2641lb'') = Some (782641 / 10000)"
  "strip_units_to_float (Str ''N/A'') = None"
  by (simp_all add: strip_units_to_float_def numeral_at_def is_digit_def float_of_numeral_def
        nat_of_digits_def)

text \<open>
  Claim C4. The value extracted from a unit-suffixed text is that of its leading decimal
  numeral: the text is \<open>pre @ n @ rest\<close> where \<open>pre\<close> holds no digit, \<open>n\<close> is a decimal
  numeral and no longer decimal numeral starts at the same place; the result is missing
  exactly when the text holds no digit. In particular \<open>8.9523ft3\<close> gives 8.9523,
  \<open>78.2641lb\<close> gives 78.2641 and \<open>N/A\<close> gives no value.
\<close>

theorem strip_units_to_float_leading_numeral:
  "(strip_units_to_float c = None) = (\<forall>ch\<in>set (format_cell c). \<not> is_digit ch)
   \<and> (\<forall>q. strip_units_to_float (Str s) = Some q \<longrightarrow>
          (\<exists>pre n rest. pre @ n @ rest = s \<and> (\<forall>ch\<in>set pre. \<not> is_digit ch)
             \<and> decimal_numeral n
             \<and> (\<forall>m t. decimal_numeral m \<and> m @ t = n @ rest \<longrightarrow> length m \<le> length n)
             \<and> q = float_of_numeral n))
   \<and> strip_units_to_float (Str ''8.9523ft3'') = Some (89523 / 10000)
   \<and> strip_units_to_float (Str ''78.2641lb'') = Some (782641 / 10000)
   \<and> strip_units_to_float (Str ''N/A'') = None"
proof -
  have a: "(strip_units_to_float c = None) = (\<forall>ch\<in>set (format_cell c). \<not> is_digit ch)"
    by (simp add: strip_units_to_float_def extract_numeral_None)
  have b: "\<forall>q. strip_units_to_float (Str s) = Some q \<longrightarrow>
          (\<exists>pre n rest. pre @ n @ rest = s \<and> (\<forall>ch\<in>set pre. \<not> is_digit ch)
             \<and> decimal_numeral n
             \<and> (\<forall>m t. decimal_numeral m \<and> m @ t = n @ rest \<longrightarrow> length m \<le> length n)
             \<and> q = float_of_numeral n)"
  proof (intro allI impI)
    fix q assume "strip_units_to_float (Str s) = Some q"
    then obtain n where n: "extract_numeral s = Some n" and q: "q = float_of_numeral n"
      by (auto simp: strip_units_to_float_def)
    from extract_numeral_Some [OF n] q
    show "\<exists>pre n rest. pre @ n @ rest = s \<and> (\<forall>ch\<in>set pre. \<not> is_digit ch)
             \<and> decimal_numeral n
             \<and> (\<forall>m t. decimal_numeral m \<and> m @ t = n @ rest \<longrightarrow> length m \<le> length n)
             \<and> q = float_of_numeral n"
      by blast
  qed
  from a b strip_units_examples show ?thesis by blast
qed

theorem strip_units_to_float_witness:
  "strip_units_to_float (Str ''vol 12.50 ft'') = Some (25 / 2)
   \<and> (\<exists>pre n rest. pre @ n @ rest = ''vol 12.50 ft'' \<and> decimal_numeral n
         \<and> 25 / 2 = float_of_numeral n)
   \<and> strip_units_to_float (Str ''N/A'') = None
   \<and> (\<exists>ch\<in>set ''x1''. is_digit ch) \<and> strip_units_to_float (Str ''x1'') \<noteq> None"
proof -
  have v: "strip_units_to_float (Str ''vol 12.50 ft'') = Some (25 / 2)"
    by (simp add: strip_units_to_float_def numeral_at_def is_digit_def float_of_numeral_def
        nat_of_digits_def)
  have d: "\<exists>ch\<in>set ''x1''. is_digit ch" by (simp add: is_digit_def)
  note t = strip_units_to_float_leading_numeral [of "Str ''x1''" "''vol 12.50 ft''"]
  from t v have "\<exists>pre n rest. pre @ n @ rest = ''vol 12.50 ft'' \<and> decimal_numeral n
         \<and> 25 / 2 = float_of_numeral n" by blast
  moreover from t d have "strip_units_to_float (Str ''x1'') \<noteq> None" by simp
  moreover from t have "strip_units_to_float (Str ''N/A'') = None" by blast
  ultimately show ?thesis using v d by blast
qed

subsection \<open>The quantity column\<close>












subsection \<open>Timestamps\<close>

text \<open>
  Claim C3. The claim says that a value failing the strict parse is given to the heuristic
  parser and becomes null only when both fail. The code does not do that: with
  \<^verbatim>\<open>errors="coerce"\<close> the strict call stores a missing value for such a cell and
  returns, so the \<^verbatim>\<open>except\<close> branch with the heuristic parser is not reached. The
  result is the strict parse of every cell, whatever the heuristic parser would give;
  \<open>01/30/2024 10:00\<close> becomes null.
\<close>

theorem parse_datetime_series_skips_fallback:
  "parse_datetime_series strict infer (Some cells)
     = Some (Inr (map (\<lambda>c. case c of Str v \<Rightarrow> strict v | _ \<Rightarrow> None) cells))
   \<and> parse_datetime_series strptime_ymd_hms infer
        (Some [Str ''01/30/2024 10:00'', Str ''2024-01-30 10:00:00''])
     = Some (Inr [None, Some 1706608800])"
  by (simp add: parse_datetime_series_def to_datetime_coerce_def strptime_ymd_hms_def
     digits_value_def is_digit_def nat_of_digits_def days_in_month_def days_from_civil_def)

subsection \<open>The date dimension\<close>

lemma date_id_date_point: "date_id (date_point d) = d"
  by (simp add: date_point_def split: prod.splits)

lemma quarter_date_point: "quarter (date_point d) = ((month (date_point d) - 1) div 3) + 1"
  by (simp add: date_point_def split: prod.splits)

lemma is_weekend_date_point:
  "is_weekend (date_point d) = (if dayofweek d \<ge> 5 then 1 else 0)"
  by (simp add: date_point_def split: prod.splits)

lemma weekend_days: "(dayofweek d \<ge> 5) = (weekday_of d \<in> {Saturday, Sunday})"
proof -
  have "0 \<le> dayofweek d" "dayofweek d < 7" by (simp_all add: dayofweek_def)
  then have "dayofweek d = 0 \<or> dayofweek d = 1 \<or> dayofweek d = 2 \<or> dayofweek d = 3
      \<or> dayofweek d = 4 \<or> dayofweek d = 5 \<or> dayofweek d = 6" by arith
  then show ?thesis
    by (auto simp: weekday_of_def)
qed

lemma map_date_id_frame: "map date_id (dim_date_frame lo hi) = [lo..hi]"
  by (simp add: dim_date_frame_def date_range_def date_id_date_point map_idI)

lemma frame_example:
  "dim_date_frame (days_from_civil 2024 1 30) (days_from_civil 2024 2 2) =
     [\<lparr>date_id = 19752, year = 2024, quarter = 1, month = 1, month_name = ''January'', day = 30,
       day_of_week = 2, is_weekend = 0\<rparr>,
      \<lparr>date_id = 19753, year = 2024, quarter = 1, month = 1, month_name = ''January'', day = 31,
       day_of_week = 3, is_weekend = 0\<rparr>,
      \<lparr>date_id = 19754, year = 2024, quarter = 1, month = 2, month_name = ''February'', day = 1,
       day_of_week = 4, is_weekend = 0\<rparr>,
      \<lparr>date_id = 19755, year = 2024, quarter = 1, month = 2, month_name = ''February'', day = 2,
       day_of_week = 5, is_weekend = 0\<rparr>]"
  by code_simp

lemma weekend_example:
  "is_weekend (date_point (days_from_civil 2024 2 3)) = 1
   \<and> weekday_of (days_from_civil 2024 2 3) = Saturday
   \<and> is_weekend (date_point (days_from_civil 2024 2 4)) = 1
   \<and> weekday_of (days_from_civil 2024 2 4) = Sunday"
  by code_simp

lemma count_by_key:
  "distinct (map f xs) \<Longrightarrow> length (filter (\<lambda>r. f r = d) xs) = (if d \<in> f ` set xs then 1 else 0)"
  by (induction xs) auto

lemma merge_dim_date_distinct:
  assumes "distinct (map date_id target)" "distinct (map date_id src)"
  shows "distinct (map date_id (merge_dim_date target src))"
proof -
  have "distinct (map date_id (filter (\<lambda>s. \<not> (\<exists>t\<in>set target. date_id t = date_id s)) src))"
    using assms(2) by (rule distinct_map_filter)
  moreover have "set (map date_id target)
      \<inter> set (map date_id (filter (\<lambda>s. \<not> (\<exists>t\<in>set target. date_id t = date_id s)) src)) = {}"
    by auto
  ultimately show ?thesis using assms(1)
    by (simp add: merge_dim_date_def)
qed

lemma merge_dim_date_ids:
  "date_id ` set (merge_dim_date target src) = date_id ` set target \<union> date_id ` set src"
proof -
  have "date_id x \<in> date_id ` set (merge_dim_date target src)" if "x \<in> set src" for x
  proof (cases "\<exists>t\<in>set target. date_id t = date_id x")
    case True
    then obtain t where "t \<in> set target" "date_id t = date_id x" by blast
    then have "t \<in> set (merge_dim_date target src)" by (simp add: merge_dim_date_def)
    then show ?thesis using \<open>date_id t = date_id x\<close> by (metis imageI)
  next
    case False
    then have "x \<in> set (merge_dim_date target src)" using that by (simp add: merge_dim_date_def)
    then show ?thesis by blast
  qed
  moreover have "set (merge_dim_date target src) \<subseteq> set target \<union> set src"
    by (auto simp: merge_dim_date_def)
  moreover have "set target \<subseteq> set (merge_dim_date target src)"
    by (auto simp: merge_dim_date_def)
  ultimately show ?thesis by blast
qed

lemma ensure_dim_date_stores:
  assumes "distinct (map date_id (dim_date db))"
  shows "ensure_dim_date db (Some tlo) (Some thi)
     = Inr (db\<lparr>dim_date := merge_dim_date (dim_date db) (dim_date_frame (to_date tlo) (to_date thi))\<rparr>)"
proof -
  have "distinct (map date_id (dim_date_frame (to_date tlo) (to_date thi)))"
    by (simp add: map_date_id_frame)
  then have "distinct (map date_id (merge_dim_date (dim_date db) (dim_date_frame (to_date tlo) (to_date thi))))"
    using assms merge_dim_date_distinct by blast
  then show ?thesis by (simp add: ensure_dim_date_def)
qed

text \<open>
  Claim C6. For bounds that are not null, the frame that \<open>ensure_dim_date\<close> builds has
  exactly one row per day of the inclusive range, in order, with no gap and no duplicate;
  in every row the quarter is \<open>((month - 1) div 3) + 1\<close> and \<open>is_weekend\<close> is 1 exactly on
  Saturdays and Sundays. From 2024-01-30 to 2024-02-02 it has the four rows listed. The
  merge then stores it so that, in a table whose \<open>date_id\<close> are distinct, every day of
  the range has exactly one row.
\<close>

theorem dim_date_frame_one_row_per_day:
  "map date_id (dim_date_frame lo hi) = [lo..hi]
   \<and> distinct (map date_id (dim_date_frame lo hi))
   \<and> date_id ` set (dim_date_frame lo hi) = {lo..hi}
   \<and> length (dim_date_frame lo hi) = nat (hi - lo + 1)
   \<and> (\<forall>r\<in>set (dim_date_frame lo hi).
         quarter r = ((month r - 1) div 3) + 1
         \<and> (is_weekend r = 1) = (weekday_of (date_id r) \<in> {Saturday, Sunday})
         \<and> (is_weekend r = 0) = (weekday_of (date_id r) \<notin> {Saturday, Sunday}))
   \<and> dim_date_frame (days_from_civil 2024 1 30) (days_from_civil 2024 2 2) =
       [\<lparr>date_id = 19752, year = 2024, quarter = 1, month = 1, month_name = ''January'',
          day = 30, day_of_week = 2, is_weekend = 0\<rparr>,
        \<lparr>date_id = 19753, year = 2024, quarter = 1, month = 1, month_name = ''January'',
          day = 31, day_of_week = 3, is_weekend = 0\<rparr>,
        \<lparr>date_id = 19754, year = 2024, quarter = 1, month = 2, month_name = ''February'',
          day = 1, day_of_week = 4, is_weekend = 0\<rparr>,
        \<lparr>date_id = 19755, year = 2024, quarter = 1, month = 2, month_name = ''February'',
          day = 2, day_of_week = 5, is_weekend = 0\<rparr>]
   \<and> is_weekend (date_point (days_from_civil 2024 2 3)) = 1
   \<and> weekday_of (days_from_civil 2024 2 3) = Saturday
   \<and> (distinct (map date_id (dim_date db)) \<longrightarrow>
        (\<exists>db'. ensure_dim_date db (Some tlo) (Some thi) = Inr db'
           \<and> distinct (map date_id (dim_date db'))
           \<and> (\<forall>d\<in>{to_date tlo..to_date thi}.
                 length (filter (\<lambda>r. date_id r = d) (dim_date db')) = 1)))"
proof -
  have ids: "map date_id (dim_date_frame lo hi) = [lo..hi]" by (rule map_date_id_frame)
  have dist: "distinct (map date_id (dim_date_frame lo hi))" by (simp add: ids)
  have st: "date_id ` set (dim_date_frame lo hi) = {lo..hi}"
    using arg_cong [OF ids, of set] by simp
  have len: "length (dim_date_frame lo hi) = nat (hi - lo + 1)"
    using arg_cong [OF ids, of length] by simp
  have rows: "\<forall>r\<in>set (dim_date_frame lo hi).
         quarter r = ((month r - 1) div 3) + 1
         \<and> (is_weekend r = 1) = (weekday_of (date_id r) \<in> {Saturday, Sunday})
         \<and> (is_weekend r = 0) = (weekday_of (date_id r) \<notin> {Saturday, Sunday})"
  proof
    fix r assume "r \<in> set (dim_date_frame lo hi)"
    then obtain d where r: "r = date_point d" by (auto simp: dim_date_frame_def)
    show "quarter r = ((month r - 1) div 3) + 1
         \<and> (is_weekend r = 1) = (weekday_of (date_id r) \<in> {Saturday, Sunday})
         \<and> (is_weekend r = 0) = (weekday_of (date_id r) \<notin> {Saturday, Sunday})"
      unfolding r date_id_date_point
      using quarter_date_point [of d] weekend_days [of d]
      by (simp add: is_weekend_date_point)
  qed
  have stored: "distinct (map date_id (dim_date db)) \<longrightarrow>
        (\<exists>db'. ensure_dim_date db (Some tlo) (Some thi) = Inr db'
           \<and> distinct (map date_id (dim_date db'))
           \<and> (\<forall>d\<in>{to_date tlo..to_date thi}.
                 length (filter (\<lambda>r. date_id r = d) (dim_date db')) = 1))"
  proof
    assume d: "distinct (map date_id (dim_date db))"
    let ?tbl = "merge_dim_date (dim_date db) (dim_date_frame (to_date tlo) (to_date thi))"
    have e: "ensure_dim_date db (Some tlo) (Some thi) = Inr (db\<lparr>dim_date := ?tbl\<rparr>)"
      by (rule ensure_dim_date_stores [OF d])
    have d': "distinct (map date_id ?tbl)"
      using d merge_dim_date_distinct [of "dim_date db"] by (simp add: map_date_id_frame)
    have "\<forall>x\<in>{to_date tlo..to_date thi}. length (filter (\<lambda>r. date_id r = x) ?tbl) = 1"
    proof
      fix x assume "x \<in> {to_date tlo..to_date thi}"
      then have "x \<in> date_id ` set (dim_date_frame (to_date tlo) (to_date thi))"
        using arg_cong [OF map_date_id_frame [of "to_date tlo" "to_date thi"], of set] by simp
      then have "x \<in> date_id ` set ?tbl" by (simp add: merge_dim_date_ids)
      then show "length (filter (\<lambda>r. date_id r = x) ?tbl) = 1"
        using count_by_key [OF d', of x] by simp
    qed
    with e d' show "\<exists>db'. ensure_dim_date db (Some tlo) (Some thi) = Inr db'
           \<and> distinct (map date_id (dim_date db'))
           \<and> (\<forall>d\<in>{to_date tlo..to_date thi}.
                 length (filter (\<lambda>r. date_id r = d) (dim_date db')) = 1)"
      by simp
  qed
  from ids dist st len rows frame_example weekend_example stored show ?thesis
    by blast
qed

theorem dim_date_frame_witness:
  "length (dim_date_frame 19752 19755) = 4
   \<and> date_point 19753 \<in> set (dim_date_frame 19752 19755)
   \<and> quarter (date_point 19753) = ((month (date_point 19753) - 1) div 3) + 1
   \<and> (is_weekend (date_point 19753) = 0) = (weekday_of 19753 \<notin> {Saturday, Sunday})
   \<and> distinct (map date_id (dim_date empty_warehouse))
   \<and> (\<exists>db'. ensure_dim_date empty_warehouse (Some 1706608800) (Some 1706868000) = Inr db'
         \<and> length (filter (\<lambda>r. date_id r = 19753) (dim_date db')) = 1)"
proof -
  note t = dim_date_frame_one_row_per_day
    [of 19752 19755 empty_warehouse 1706608800 1706868000]
  have m: "date_point 19753 \<in> set (dim_date_frame 19752 19755)"
    by (simp add: dim_date_frame_def date_range_def)
  have d: "distinct (map date_id (dim_date empty_warehouse))"
    by (simp add: empty_warehouse_def)
  have i: "(19753 :: int) \<in> {to_date 1706608800..to_date 1706868000}"
    by (simp add: to_date_def)
  from t have "length (dim_date_frame 19752 19755) = 4" by simp
  moreover from t m have "quarter (date_point 19753) = ((month (date_point 19753) - 1) div 3) + 1
     \<and> (is_weekend (date_point 19753) = 0) = (weekday_of 19753 \<notin> {Saturday, Sunday})"
    using date_id_date_point [of 19753] by metis
  moreover from t d i have "\<exists>db'. ensure_dim_date empty_warehouse (Some 1706608800) (Some 1706868000) = Inr db'
         \<and> length (filter (\<lambda>r. date_id r = 19753) (dim_date db')) = 1"
    by blast
  ultimately show ?thesis using m d by blast
qed

text \<open>
  Claim C7. The date dimension is append-only: when \<open>ensure_dim_date\<close> returns, the rows
  that were in \<open>dim_date\<close> are an unchanged prefix of the table, the rows added have
  \<open>date_id\<close> values that were not present, and no other table changes; with a null bound
  nothing changes at all. On a table with distinct \<open>date_id\<close> it always returns.
\<close>

theorem ensure_dim_date_append_only:
  "ensure_dim_date db None hi = Inr db
   \<and> ensure_dim_date db lo None = Inr db
   \<and> (\<forall>db'. ensure_dim_date db lo hi = Inr db' \<longrightarrow>
         (\<exists>new. dim_date db' = dim_date db @ new
            \<and> (\<forall>r\<in>set new. date_id r \<notin> date_id ` set (dim_date db)))
         \<and> take (length (dim_date db)) (dim_date db') = dim_date db
         \<and> db' = db\<lparr>dim_date := dim_date db'\<rparr>)
   \<and> (distinct (map date_id (dim_date db)) \<longrightarrow> (\<exists>db'. ensure_dim_date db lo hi = Inr db'))"
proof -
  have n1: "ensure_dim_date db None hi = Inr db" by (simp add: ensure_dim_date_def)
  have n2: "ensure_dim_date db lo None = Inr db"
    by (simp add: ensure_dim_date_def split: option.splits)
  have fr: "\<forall>db'. ensure_dim_date db lo hi = Inr db' \<longrightarrow>
         (\<exists>new. dim_date db' = dim_date db @ new
            \<and> (\<forall>r\<in>set new. date_id r \<notin> date_id ` set (dim_date db)))
         \<and> take (length (dim_date db)) (dim_date db') = dim_date db
         \<and> db' = db\<lparr>dim_date := dim_date db'\<rparr>"
  proof (intro allI impI)
    fix db' assume e: "ensure_dim_date db lo hi = Inr db'"
    show "(\<exists>new. dim_date db' = dim_date db @ new
            \<and> (\<forall>r\<in>set new. date_id r \<notin> date_id ` set (dim_date db)))
         \<and> take (length (dim_date db)) (dim_date db') = dim_date db
         \<and> db' = db\<lparr>dim_date := dim_date db'\<rparr>"
    proof (cases "\<exists>l h. lo = Some l \<and> hi = Some h")
      case True
      then obtain l h where lh: "lo = Some l" "hi = Some h" by blast
      let ?new = "filter (\<lambda>s. \<not> (\<exists>t\<in>set (dim_date db). date_id t = date_id s))
                    (dim_date_frame (to_date l) (to_date h))"
      have db': "db' = db\<lparr>dim_date := dim_date db @ ?new\<rparr>"
        using e unfolding lh by (simp add: ensure_dim_date_def merge_dim_date_def Let_def split: if_splits)
      have "\<forall>r\<in>set ?new. date_id r \<notin> date_id ` set (dim_date db)" by auto
      then show ?thesis unfolding db' by simp
    next
      case False
      then have "ensure_dim_date db lo hi = Inr db"
        by (cases lo; cases hi) (simp_all add: ensure_dim_date_def)
      then have "db' = db" using e by simp
      then show ?thesis by simp
    qed
  qed
  have ok: "distinct (map date_id (dim_date db)) \<longrightarrow> (\<exists>db'. ensure_dim_date db lo hi = Inr db')"
  proof
    assume d: "distinct (map date_id (dim_date db))"
    show "\<exists>db'. ensure_dim_date db lo hi = Inr db'"
    proof (cases lo)
      case None
      then show ?thesis using n1 by simp
    next
      case l: (Some l)
      show ?thesis
      proof (cases hi)
        case None
        then show ?thesis using n2 by simp
      next
        case (Some h)
        then show ?thesis using ensure_dim_date_stores [OF d, of l h] l by simp
      qed
    qed
  qed
  from n1 n2 fr ok show ?thesis by blast
qed

theorem ensure_dim_date_append_only_witness:
  "ensure_dim_date
      (empty_warehouse\<lparr>dim_date := [\<lparr>date_id = 19753, year = 0, quarter = 0, month = 0,
          month_name = ''kept'', day = 0, day_of_week = 0, is_weekend = 0\<rparr>]\<rparr>)
      (Some 1706608800) (Some 1706868000)
    = Inr (empty_warehouse\<lparr>dim_date :=
        [\<lparr>date_id = 19753, year = 0, quarter = 0, month = 0,
          month_name = ''kept'', day = 0, day_of_week = 0, is_weekend = 0\<rparr>,
         \<lparr>date_id = 19752, year = 2024, quarter = 1, month = 1, month_name = ''January'',
          day = 30, day_of_week = 2, is_weekend = 0\<rparr>,
         \<lparr>date_id = 19754, year = 2024, quarter = 1, month = 2, month_name = ''February'',
          day = 1, day_of_week = 4, is_weekend = 0\<rparr>,
         \<lparr>date_id = 19755, year = 2024, quarter = 1, month = 2, month_name = ''February'',
          day = 2, day_of_week = 5, is_weekend = 0\<rparr>]\<rparr>)
   \<and> (\<exists>db'. ensure_dim_date
      (empty_warehouse\<lparr>dim_date := [\<lparr>date_id = 19753, year = 0, quarter = 0, month = 0,
          month_name = ''kept'', day = 0, day_of_week = 0, is_weekend = 0\<rparr>]\<rparr>)
      (Some 1706608800) (Some 1706868000) = Inr db'
      \<and> take 1 (dim_date db') = [\<lparr>date_id = 19753, year = 0, quarter = 0, month = 0,
          month_name = ''kept'', day = 0, day_of_week = 0, is_weekend = 0\<rparr>])"
proof -
  let ?r = "\<lparr>date_id = 19753, year = 0, quarter = 0, month = 0,
          month_name = ''kept'', day = 0, day_of_week = 0, is_weekend = 0\<rparr>"
  let ?db = "empty_warehouse\<lparr>dim_date := [?r]\<rparr>"
  have e: "ensure_dim_date ?db (Some 1706608800) (Some 1706868000)
    = Inr (empty_warehouse\<lparr>dim_date :=
        [?r,
         \<lparr>date_id = 19752, year = 2024, quarter = 1, month = 1, month_name = ''January'',
          day = 30, day_of_week = 2, is_weekend = 0\<rparr>,
         \<lparr>date_id = 19754, year = 2024, quarter = 1, month = 2, month_name = ''February'',
          day = 1, day_of_week = 4, is_weekend = 0\<rparr>,
         \<lparr>date_id = 19755, year = 2024, quarter = 1, month = 2, month_name = ''February'',
          day = 2, day_of_week = 5, is_weekend = 0\<rparr>]\<rparr>)"
    by code_simp
  have d: "distinct (map date_id (dim_date ?db))" by simp
  note t = ensure_dim_date_append_only [of ?db "Some 1706868000" "Some 1706608800"]
  from t d obtain db' where x: "ensure_dim_date ?db (Some 1706608800) (Some 1706868000) = Inr db'"
    by blast
  with t have "take (length (dim_date ?db)) (dim_date db') = dim_date ?db" by blast
  then have "take 1 (dim_date db') = [?r]" by simp
  with x e show ?thesis by blast
qed

subsection \<open>The fact table\<close>

lemma left_join_Some: "(Some x \<in> set (left_join on tbl)) = (x \<in> set tbl \<and> on x)"
proof (cases "filter on tbl")
  case Nil
  then have "\<not> (x \<in> set tbl \<and> on x)" by (simp add: filter_empty_conv)
  then show ?thesis using Nil by (auto simp: left_join_def)
next
  case (Cons m ms)
  have "set (left_join on tbl) = Some ` set (filter on tbl)"
    unfolding Cons by (simp add: left_join_def Cons)
  then show ?thesis by auto
qed

lemma left_join_single:
  assumes "length (filter on tbl) \<le> 1"
  shows "\<exists>x. left_join on tbl = [x]"
proof (cases "filter on tbl")
  case Nil
  then show ?thesis by (simp add: left_join_def)
next
  case (Cons m ms)
  then have "ms = []" using assms by simp
  then show ?thesis using Cons by (simp add: left_join_def)
qed

lemma select_fact_rows_mem:
  "(v \<in> set (select_fact_rows src db r)) =
     (\<exists>t pl p. dt_col src r = Some t
        \<and> pl \<in> set (dim_platform db) \<and> Some (platform_name pl) = commercePlatform r
        \<and> p \<in> set (dim_product db) \<and> Some (main_sku_code p) = product_key r
        \<and> v = \<lparr>order_id = orderNo r, f_date_id = Some (to_date t),
                f_product_id = Some (product_id p), f_customer_id = customer_id r,
                f_platform_id = Some (platform_id pl), units = fillna 1 (goodsNumber r),
                revenue = 0, f_state_code = state_code r\<rparr>)"
  (is "?L = ?R")
proof
  assume ?L
  then obtain plo po where
    plo: "plo \<in> set (left_join (\<lambda>pl. Some (platform_name pl) = commercePlatform r) (dim_platform db))"
    and po: "po \<in> set (left_join (\<lambda>p. Some (main_sku_code p) = product_key r) (dim_product db))"
    and c: "dt_col src r \<noteq> None" "map_option platform_id plo \<noteq> None" "map_option product_id po \<noteq> None"
    and v: "v = \<lparr>order_id = orderNo r, f_date_id = map_option to_date (dt_col src r),
                f_product_id = map_option product_id po, f_customer_id = customer_id r,
                f_platform_id = map_option platform_id plo, units = fillna 1 (goodsNumber r),
                revenue = 0, f_state_code = state_code r\<rparr>"
    unfolding select_fact_rows_def by (auto split: if_splits)
  from c obtain t pl p where s: "dt_col src r = Some t" "plo = Some pl" "po = Some p" by auto
  from plo po have "pl \<in> set (dim_platform db) \<and> Some (platform_name pl) = commercePlatform r"
    "p \<in> set (dim_product db) \<and> Some (main_sku_code p) = product_key r"
    unfolding s by (simp_all add: left_join_Some)
  then show ?R using v s by auto
next
  assume ?R
  then obtain t pl p where h: "dt_col src r = Some t"
        "pl \<in> set (dim_platform db)" "Some (platform_name pl) = commercePlatform r"
        "p \<in> set (dim_product db)" "Some (main_sku_code p) = product_key r"
        "v = \<lparr>order_id = orderNo r, f_date_id = Some (to_date t),
                f_product_id = Some (product_id p), f_customer_id = customer_id r,
                f_platform_id = Some (platform_id pl), units = fillna 1 (goodsNumber r),
                revenue = 0, f_state_code = state_code r\<rparr>"
    by blast
  have a: "Some pl \<in> set (left_join (\<lambda>pl. Some (platform_name pl) = commercePlatform r) (dim_platform db))"
    using h by (simp add: left_join_Some)
  have b: "Some p \<in> set (left_join (\<lambda>p. Some (main_sku_code p) = product_key r) (dim_product db))"
    using h by (simp add: left_join_Some)
  have cp: "commercePlatform r \<noteq> None" "product_key r \<noteq> None"
    using h(3,5) by (metis option.distinct(1))+
  show ?L unfolding select_fact_rows_def set_concat set_map
    apply (rule UN_I [OF imageI [OF a]])
    apply (simp only: set_concat set_map)
    apply (rule UN_I [OF imageI [OF b]])
    using h(1,6) cp by simp
qed

lemma select_fact_rows_nonempty:
  "(select_fact_rows src db r \<noteq> []) =
     (dt_col src r \<noteq> None
      \<and> (\<exists>pl\<in>set (dim_platform db). Some (platform_name pl) = commercePlatform r)
      \<and> (\<exists>p\<in>set (dim_product db). Some (main_sku_code p) = product_key r))"
proof -
  have "(select_fact_rows src db r \<noteq> []) = (\<exists>v. v \<in> set (select_fact_rows src db r))"
    by (cases "select_fact_rows src db r") auto
  also have "\<dots> = (dt_col src r \<noteq> None
      \<and> (\<exists>pl\<in>set (dim_platform db). Some (platform_name pl) = commercePlatform r)
      \<and> (\<exists>p\<in>set (dim_product db). Some (main_sku_code p) = product_key r))"
    unfolding select_fact_rows_mem by auto
  finally show ?thesis .
qed

lemma select_fact_rows_at_most_one:
  assumes "distinct (map platform_name (dim_platform db))"
    and "distinct (map main_sku_code (dim_product db))"
  shows "length (select_fact_rows src db r) \<le> 1"
proof -
  have "length (filter (\<lambda>pl. Some (platform_name pl) = commercePlatform r) (dim_platform db)) \<le> 1"
  proof (cases "commercePlatform r")
    case None
    then show ?thesis by simp
  next
    case (Some n)
    have "(\<lambda>pl. Some (platform_name pl) = Some n) = (\<lambda>pl. platform_name pl = n)" by auto
    then show ?thesis using count_by_key [OF assms(1), of n] Some by simp
  qed
  then obtain plo where a:
    "left_join (\<lambda>pl. Some (platform_name pl) = commercePlatform r) (dim_platform db) = [plo]"
    using left_join_single by blast
  have "length (filter (\<lambda>p. Some (main_sku_code p) = product_key r) (dim_product db)) \<le> 1"
  proof (cases "product_key r")
    case None
    then show ?thesis by simp
  next
    case (Some k)
    have "(\<lambda>p. Some (main_sku_code p) = Some k) = (\<lambda>p. main_sku_code p = k)" by auto
    then show ?thesis using count_by_key [OF assms(2), of k] Some by simp
  qed
  then obtain po where b:
    "left_join (\<lambda>p. Some (main_sku_code p) = product_key r) (dim_product db) = [po]"
    using left_join_single by blast
  show ?thesis unfolding select_fact_rows_def a b by simp
qed

lemma insert_fact_sales_rows:
  "stg_order_export_raw (insert_fact_sales src db) = stg_order_export_raw db
   \<and> take (length (fact_sales db)) (fact_sales (insert_fact_sales src db)) = fact_sales db
   \<and> map fact_values.truncate (drop (length (fact_sales db)) (fact_sales (insert_fact_sales src db)))
       = concat (map (select_fact_rows src db) (stg_order_export_raw db))
   \<and> dim_platform (insert_fact_sales src db) = dim_platform db
   \<and> dim_product (insert_fact_sales src db) = dim_product db"
proof -
  have "map fact_values.truncate
          (map (\<lambda>(i, v). fact_values.extend v (fact_row.fields (k + int i))) (enumerate 0 vs)) = vs"
    for k and vs :: "fact_values list"
  proof -
    have "map fact_values.truncate
          (map (\<lambda>(i, v). fact_values.extend v (fact_row.fields (k + int i))) (enumerate n vs)) = vs" for n
      by (induction vs arbitrary: n)
         (simp_all add: fact_values.truncate_def fact_values.extend_def)
    then show ?thesis .
  qed
  then show ?thesis by (simp add: insert_fact_sales_def Let_def)
qed

text \<open>
  Claim C5. The statement selects a fact row for a staged row if and only if the row's
  chosen date is not null, its platform name is that of a \<open>dim_platform\<close> row and its
  product key is that of a \<open>dim_product\<close> row; every selected row carries the keys of
  rows it joined, and with unique platform names and SKU codes there is at most one per
  staged row. The rows inserted into \<open>fact_sales\<close> are those selected for the staged rows,
  after the facts already there; the staging table is left as it was, so the rows that
  give no fact are still in it.
\<close>

theorem fact_row_iff_resolved:
  "(select_fact_rows src db r \<noteq> []) =
     (dt_col src r \<noteq> None
      \<and> (\<exists>pl\<in>set (dim_platform db). Some (platform_name pl) = commercePlatform r)
      \<and> (\<exists>p\<in>set (dim_product db). Some (main_sku_code p) = product_key r))
   \<and> (\<forall>v\<in>set (select_fact_rows src db r).
        \<exists>t pl p. dt_col src r = Some t
          \<and> pl \<in> set (dim_platform db) \<and> Some (platform_name pl) = commercePlatform r
          \<and> p \<in> set (dim_product db) \<and> Some (main_sku_code p) = product_key r
          \<and> v = \<lparr>order_id = orderNo r, f_date_id = Some (to_date t),
                  f_product_id = Some (product_id p), f_customer_id = customer_id r,
                  f_platform_id = Some (platform_id pl), units = fillna 1 (goodsNumber r),
                  revenue = 0, f_state_code = state_code r\<rparr>)
   \<and> (distinct (map platform_name (dim_platform db))
        \<and> distinct (map main_sku_code (dim_product db))
        \<longrightarrow> length (select_fact_rows src db r) \<le> 1)
   \<and> stg_order_export_raw (insert_fact_sales src db) = stg_order_export_raw db
   \<and> take (length (fact_sales db)) (fact_sales (insert_fact_sales src db)) = fact_sales db
   \<and> map fact_values.truncate
         (drop (length (fact_sales db)) (fact_sales (insert_fact_sales src db)))
       = concat (map (select_fact_rows src db) (stg_order_export_raw db))"
  using select_fact_rows_nonempty [of src db r] select_fact_rows_mem [of _ src db r]
    select_fact_rows_at_most_one [of db src r] insert_fact_sales_rows [of src db]
  by blast

theorem fact_row_iff_resolved_witness:
  "select_fact_rows SubmitTime
      (empty_warehouse\<lparr>stg_order_export_raw := [\<lparr>orderNo = Some ''A1'',
      commercePlatform = Some ''Amazon'', postalCode = None, createTime = None,
      submitTime = Some 1706608800, goodsNumber = Some 2, customer_id = Some 7,
      state_code = Some ''CA'', product_key = Some ''SKU1''\<rparr>,
      \<lparr>orderNo = Some ''A2'', commercePlatform = Some ''Amazon'', postalCode = None,
      createTime = None, submitTime = None, goodsNumber = Some 1, customer_id = Some 7,
      state_code = Some ''CA'', product_key = Some ''SKU1''\<rparr>],
      dim_platform := [\<lparr>platform_id = 1, platform_name = ''Amazon''\<rparr>],
      dim_product := [\<lparr>product_id = 1, main_sku_code = ''SKU1'', english_name = None,
      chinese_name = None, customer_code = None, category = None\<rparr>]\<rparr>)
      \<lparr>orderNo = Some ''A1'', commercePlatform = Some ''Amazon'', postalCode = None,
      createTime = None, submitTime = Some 1706608800, goodsNumber = Some 2,
      customer_id = Some 7, state_code = Some ''CA'', product_key = Some ''SKU1''\<rparr>
     = [\<lparr>order_id = Some ''A1'', f_date_id = Some 19752, f_product_id = Some 1,
         f_customer_id = Some 7, f_platform_id = Some 1, units = 2, revenue = 0,
         f_state_code = Some ''CA''\<rparr>]
   \<and> select_fact_rows SubmitTime
      (empty_warehouse\<lparr>stg_order_export_raw := [\<lparr>orderNo = Some ''A1'',
      commercePlatform = Some ''Amazon'', postalCode = None, createTime = None,
      submitTime = Some 1706608800, goodsNumber = Some 2, customer_id = Some 7,
      state_code = Some ''CA'', product_key = Some ''SKU1''\<rparr>,
      \<lparr>orderNo = Some ''A2'', commercePlatform = Some ''Amazon'', postalCode = None,
      createTime = None, submitTime = None, goodsNumber = Some 1, customer_id = Some 7,
      state_code = Some ''CA'', product_key = Some ''SKU1''\<rparr>],
      dim_platform := [\<lparr>platform_id = 1, platform_name = ''Amazon''\<rparr>],
      dim_product := [\<lparr>product_id = 1, main_sku_code = ''SKU1'', english_name = None,
      chinese_name = None, customer_code = None, category = None\<rparr>]\<rparr>)
      \<lparr>orderNo = Some ''A2'', commercePlatform = Some ''Amazon'', postalCode = None,
      createTime = None, submitTime = None, goodsNumber = Some 1, customer_id = Some 7,
      state_code = Some ''CA'', product_key = Some ''SKU1''\<rparr>
     = []
   \<and> length (select_fact_rows SubmitTime
      (empty_warehouse\<lparr>stg_order_export_raw := [\<lparr>orderNo = Some ''A1'',
      commercePlatform = Some ''Amazon'', postalCode = None, createTime = None,
      submitTime = Some 1706608800, goodsNumber = Some 2, customer_id = Some 7,
      state_code = Some ''CA'', product_key = Some ''SKU1''\<rparr>,
      \<lparr>orderNo = Some ''A2'', commercePlatform = Some ''Amazon'', postalCode = None,
      createTime = None, submitTime = None, goodsNumber = Some 1, customer_id = Some 7,
      state_code = Some ''CA'', product_key = Some ''SKU1''\<rparr>],
      dim_platform := [\<lparr>platform_id = 1, platform_name = ''Amazon''\<rparr>],
      dim_product := [\<lparr>product_id = 1, main_sku_code = ''SKU1'', english_name = None,
      chinese_name = None, customer_code = None, category = None\<rparr>]\<rparr>)
      \<lparr>orderNo = Some ''A1'', commercePlatform = Some ''Amazon'', postalCode = None,
      createTime = None, submitTime = Some 1706608800, goodsNumber = Some 2,
      customer_id = Some 7, state_code = Some ''CA'', product_key = Some ''SKU1''\<rparr>) \<le> 1
   \<and> \<lparr>orderNo = Some ''A2'', commercePlatform = Some ''Amazon'', postalCode = None,
      createTime = None, submitTime = None, goodsNumber = Some 1, customer_id = Some 7,
      state_code = Some ''CA'', product_key = Some ''SKU1''\<rparr>
      \<in> set (stg_order_export_raw (insert_fact_sales SubmitTime
      (empty_warehouse\<lparr>stg_order_export_raw := [\<lparr>orderNo = Some ''A1'',
      commercePlatform = Some ''Amazon'', postalCode = None, createTime = None,
      submitTime = Some 1706608800, goodsNumber = Some 2, customer_id = Some 7,
      state_code = Some ''CA'', product_key = Some ''SKU1''\<rparr>,
      \<lparr>orderNo = Some ''A2'', commercePlatform = Some ''Amazon'', postalCode = None,
      createTime = None, submitTime = None, goodsNumber = Some 1, customer_id = Some 7,
      state_code = Some ''CA'', product_key = Some ''SKU1''\<rparr>],
      dim_platform := [\<lparr>platform_id = 1, platform_name = ''Amazon''\<rparr>],
      dim_product := [\<lparr>product_id = 1, main_sku_code = ''SKU1'', english_name = None,
      chinese_name = None, customer_code = None, category = None\<rparr>]\<rparr>)))"
proof -
  let ?r1 = "\<lparr>orderNo = Some ''A1'', commercePlatform = Some ''Amazon'', postalCode = None,
      createTime = None, submitTime = Some 1706608800, goodsNumber = Some 2,
      customer_id = Some 7, state_code = Some ''CA'', product_key = Some ''SKU1''\<rparr>"
  let ?r2 = "\<lparr>orderNo = Some ''A2'', commercePlatform = Some ''Amazon'', postalCode = None,
      createTime = None, submitTime = None, goodsNumber = Some 1, customer_id = Some 7,
      state_code = Some ''CA'', product_key = Some ''SKU1''\<rparr>"
  let ?db = "empty_warehouse\<lparr>stg_order_export_raw := [?r1, ?r2],
      dim_platform := [\<lparr>platform_id = 1, platform_name = ''Amazon''\<rparr>],
      dim_product := [\<lparr>product_id = 1, main_sku_code = ''SKU1'', english_name = None,
      chinese_name = None, customer_code = None, category = None\<rparr>]\<rparr>"
  have e1: "select_fact_rows SubmitTime ?db ?r1
     = [\<lparr>order_id = Some ''A1'', f_date_id = Some 19752, f_product_id = Some 1,
         f_customer_id = Some 7, f_platform_id = Some 1, units = 2, revenue = 0,
         f_state_code = Some ''CA''\<rparr>]"
    by code_simp
  have n: "dt_col SubmitTime ?r2 = None" by (simp add: dt_col_def)
  have d: "distinct (map platform_name (dim_platform ?db))
        \<and> distinct (map main_sku_code (dim_product ?db))" by simp
  have s: "?r2 \<in> set (stg_order_export_raw ?db)" by simp
  from fact_row_iff_resolved [of SubmitTime ?db ?r2] n
  have e2: "select_fact_rows SubmitTime ?db ?r2 = []" by blast
  from fact_row_iff_resolved [of SubmitTime ?db ?r1] d
  have l: "length (select_fact_rows SubmitTime ?db ?r1) \<le> 1" by blast
  from fact_row_iff_resolved [of SubmitTime ?db ?r1] s
  have m: "?r2 \<in> set (stg_order_export_raw (insert_fact_sales SubmitTime ?db))" by metis
  from e1 e2 l m show ?thesis by blast
qed

subsection \<open>Backfilling products and customers\<close>

lemma update_product_row_keeps:
  "main_sku_code (update_product_row sel stg p) = main_sku_code p
   \<and> product_id (update_product_row sel stg p) = product_id p
   \<and> (english_name p \<noteq> None \<longrightarrow> english_name (update_product_row sel stg p) \<noteq> None)
   \<and> (chinese_name p \<noteq> None \<longrightarrow> chinese_name (update_product_row sel stg p) \<noteq> None)
   \<and> (customer_code p \<noteq> None \<longrightarrow> customer_code (update_product_row sel stg p) \<noteq> None)
   \<and> (category p \<noteq> None \<longrightarrow> category (update_product_row sel stg p) \<noteq> None)"
  by (auto simp: update_product_row_def coalesce_def Let_def split: list.splits option.splits)

lemma update_customer_row_id: "c_customer_id (update_customer_row sel s c) = c_customer_id c"
  by (auto simp: update_customer_row_def split: list.splits prod.splits)

lemma update_customer_row_untouched:
  "c_state_code c \<noteq> None \<Longrightarrow> c_postal_code c \<noteq> None \<Longrightarrow> update_customer_row sel s c = c"
  by (auto simp: update_customer_row_def)

lemma update_customer_row_overwrites:
  assumes "c_state_code c = None \<or> c_postal_code c = None"
    and "filter (\<lambda>(cid, st, po). cid = c_customer_id c) s = [(cid, st, po)]"
  shows "update_customer_row sel s c = c\<lparr>c_state_code := st, c_postal_code := po\<rparr>"
  using assms by (simp add: update_customer_row_def)

text \<open>
  Claim C1. The claim says that the customer update backfills with coalesce semantics, so
  that a staged null never erases a stored state or postal code. The statement has no
  \<^verbatim>\<open>COALESCE\<close> (the product update above has): for a customer with one of the two columns
  null it sets both columns from the staged row. A customer stored with state \<open>CA\<close> and
  no postal code, staged again with no state, loses the state, whichever row the engine
  takes.
\<close>

theorem update_dim_customer_erases_state:
  "upsert_dim_customer sel
     (empty_warehouse
        \<lparr>stg_order_export_raw :=
           [\<lparr>orderNo = Some ''A1'', commercePlatform = Some ''Amazon'', postalCode = None,
             createTime = None, submitTime = Some 1706608800, goodsNumber = Some 1,
             customer_id = Some 7, state_code = None, product_key = Some ''SKU1''\<rparr>],
         dim_customer :=
           [\<lparr>c_customer_id = 7, c_gender = Some ''Unknown'', c_state_code = Some ''CA'',
             c_postal_code = None\<rparr>]\<rparr>)
   = Inr (empty_warehouse
        \<lparr>stg_order_export_raw :=
           [\<lparr>orderNo = Some ''A1'', commercePlatform = Some ''Amazon'', postalCode = None,
             createTime = None, submitTime = Some 1706608800, goodsNumber = Some 1,
             customer_id = Some 7, state_code = None, product_key = Some ''SKU1''\<rparr>],
         dim_customer :=
           [\<lparr>c_customer_id = 7, c_gender = Some ''Unknown'', c_state_code = None,
             c_postal_code = None\<rparr>]\<rparr>)"
  by (simp add: upsert_dim_customer_def insert_dim_customer_def new_customers_def
      staged_customers_def update_dim_customer_def update_customer_row_def
      List.map_filter_def empty_warehouse_def)


subsection \<open>The dimension upserts\<close>

lemma map_enumerate_rows:
  assumes "\<And>i n. g (f i n) = n"
  shows "map g (map (\<lambda>(i, n). f i n) (enumerate k ns)) = ns"
  by (induction ns arbitrary: k) (simp_all add: assms)

lemma new_keys_distinct:
  assumes "distinct old"
  shows "distinct (old @ remdups (filter (\<lambda>n. n \<noteq> [] \<and> n \<notin> set old) staged))"
  using assms by auto

lemma new_keys_covered:
  assumes "\<forall>n\<in>set staged. n \<noteq> [] \<longrightarrow> n \<in> set old"
  shows "remdups (filter (\<lambda>n. n \<noteq> [] \<and> n \<notin> set old) staged) = []"
proof -
  have "filter (\<lambda>n. n \<noteq> [] \<and> n \<notin> set old) staged = []"
    using assms by (simp add: filter_empty_conv) blast
  then show ?thesis by simp
qed

lemma new_platform_names_alt:
  "new_platform_names db =
     remdups (filter (\<lambda>n. n \<noteq> [] \<and> n \<notin> set (map platform_name (dim_platform db)))
                (List.map_filter commercePlatform (stg_order_export_raw db)))"
proof -
  have "(\<lambda>n. n \<noteq> [] \<and> \<not> (\<exists>dp\<in>set (dim_platform db). platform_name dp = n))
      = (\<lambda>n. n \<noteq> [] \<and> n \<notin> set (map platform_name (dim_platform db)))"
    by (rule ext) auto
  then show ?thesis by (simp add: new_platform_names_def)
qed

lemma new_product_keys_alt:
  "new_product_keys db =
     remdups (filter (\<lambda>n. n \<noteq> [] \<and> n \<notin> set (map main_sku_code (dim_product db)))
                (List.map_filter product_key (stg_order_export_raw db)))"
proof -
  have "(\<lambda>n. n \<noteq> [] \<and> \<not> (\<exists>dp\<in>set (dim_product db). main_sku_code dp = n))
      = (\<lambda>n. n \<noteq> [] \<and> n \<notin> set (map main_sku_code (dim_product db)))"
    by (rule ext) auto
  then show ?thesis by (simp add: new_product_keys_def)
qed

lemma upsert_dim_platform_ok:
  assumes "distinct (map platform_name (dim_platform db))"
  shows "\<exists>db'. upsert_dim_platform db = Inr db'
     \<and> map platform_name (dim_platform db') = map platform_name (dim_platform db) @ new_platform_names db
     \<and> distinct (map platform_name (dim_platform db'))
     \<and> stg_order_export_raw db' = stg_order_export_raw db
     \<and> dim_product db' = dim_product db
     \<and> dim_customer db' = dim_customer db"
proof -
  let ?rows = "map (\<lambda>(i, n). \<lparr>platform_id = platform_identity db + int i, platform_name = n\<rparr>)
                   (enumerate 0 (new_platform_names db))"
  have m: "map platform_name ?rows = new_platform_names db"
    by (rule map_enumerate_rows) simp
  have d: "distinct (map platform_name (dim_platform db @ ?rows))"
  proof -
    have "distinct (map platform_name (dim_platform db) @ new_platform_names db)"
      unfolding new_platform_names_alt by (rule new_keys_distinct [OF assms])
    then show ?thesis by (simp only: map_append m)
  qed
  have "upsert_dim_platform db
     = Inr (db\<lparr>dim_platform := dim_platform db @ ?rows,
               platform_identity := platform_identity db + int (length (new_platform_names db))\<rparr>)"
    unfolding upsert_dim_platform_def Let_def using d by simp
  then show ?thesis using m d by simp
qed

lemma upsert_dim_platform_noop:
  assumes "distinct (map platform_name (dim_platform db))" "new_platform_names db = []"
  shows "upsert_dim_platform db = Inr db"
  using assms by (simp add: upsert_dim_platform_def)

lemma insert_dim_product_ok:
  assumes "distinct (map main_sku_code (dim_product db))"
  shows "\<exists>db'. insert_dim_product db = Inr db'
     \<and> map main_sku_code (dim_product db') = map main_sku_code (dim_product db) @ new_product_keys db
     \<and> distinct (map main_sku_code (dim_product db'))
     \<and> stg_order_export_raw db' = stg_order_export_raw db
     \<and> dim_platform db' = dim_platform db
     \<and> dim_customer db' = dim_customer db"
proof -
  let ?rows = "map (\<lambda>(i, k). \<lparr>product_id = product_identity db + int i, main_sku_code = k,
                                  english_name = None, chinese_name = None,
                                  customer_code = None, category = None\<rparr>)
                   (enumerate 0 (new_product_keys db))"
  have m: "map main_sku_code ?rows = new_product_keys db"
    by (rule map_enumerate_rows) simp
  have d: "distinct (map main_sku_code (dim_product db @ ?rows))"
  proof -
    have "distinct (map main_sku_code (dim_product db) @ new_product_keys db)"
      unfolding new_product_keys_alt by (rule new_keys_distinct [OF assms])
    then show ?thesis by (simp only: map_append m)
  qed
  have "insert_dim_product db
     = Inr (db\<lparr>dim_product := dim_product db @ ?rows,
               product_identity := product_identity db + int (length (new_product_keys db))\<rparr>)"
    unfolding insert_dim_product_def Let_def using d by simp
  then show ?thesis using m d by simp
qed

lemma insert_dim_product_noop:
  assumes "distinct (map main_sku_code (dim_product db))" "new_product_keys db = []"
  shows "insert_dim_product db = Inr db"
  using assms by (simp add: insert_dim_product_def)

lemma platform_names_covered:
  assumes "stg_order_export_raw db' = stg_order_export_raw db"
    and "map platform_name (dim_platform db') = map platform_name (dim_platform db) @ new_platform_names db"
  shows "new_platform_names db' = []"
proof -
  have "\<forall>n\<in>set (List.map_filter commercePlatform (stg_order_export_raw db')).
          n \<noteq> [] \<longrightarrow> n \<in> set (map platform_name (dim_platform db'))"
    unfolding assms by (auto simp: new_platform_names_alt)
  then show ?thesis
    unfolding new_platform_names_alt [of db'] by (rule new_keys_covered)
qed

lemma product_keys_covered:
  assumes "stg_order_export_raw db' = stg_order_export_raw db"
    and "map main_sku_code (dim_product db') = map main_sku_code (dim_product db) @ new_product_keys db"
  shows "new_product_keys db' = []"
proof -
  have "\<forall>n\<in>set (List.map_filter product_key (stg_order_export_raw db')).
          n \<noteq> [] \<longrightarrow> n \<in> set (map main_sku_code (dim_product db'))"
    unfolding assms by (auto simp: new_product_keys_alt)
  then show ?thesis
    unfolding new_product_keys_alt [of db'] by (rule new_keys_covered)
qed

lemma update_dim_customer_frame:
  "stg_order_export_raw (update_dim_customer sel db) = stg_order_export_raw db
   \<and> dim_platform (update_dim_customer sel db) = dim_platform db
   \<and> dim_product (update_dim_customer sel db) = dim_product db
   \<and> map c_customer_id (dim_customer (update_dim_customer sel db)) = map c_customer_id (dim_customer db)"
  by (simp add: update_dim_customer_def update_customer_row_id comp_def)

lemma insert_dim_customer_result:
  assumes "insert_dim_customer db = Inr db'"
  shows "db' = db\<lparr>dim_customer := dim_customer db @ new_customers db\<rparr>"
    and "distinct (map c_customer_id (dim_customer db'))"
  using assms by (auto simp: insert_dim_customer_def Let_def split: if_splits)

lemma insert_dim_customer_noop:
  assumes "distinct (map c_customer_id (dim_customer db))" "new_customers db = []"
  shows "insert_dim_customer db = Inr db"
  using assms by (simp add: insert_dim_customer_def)

lemma upsert_dim_customer_result:
  assumes "upsert_dim_customer sel db = Inr db'"
  shows "stg_order_export_raw db' = stg_order_export_raw db"
    and "dim_platform db' = dim_platform db"
    and "dim_product db' = dim_product db"
    and "map c_customer_id (dim_customer db')
          = map c_customer_id (dim_customer db) @ map c_customer_id (new_customers db)"
    and "distinct (map c_customer_id (dim_customer db'))"
proof -
  from assms obtain d where i: "insert_dim_customer db = Inr d" and u: "db' = update_dim_customer sel d"
    by (auto simp: upsert_dim_customer_def split: sum.splits)
  note r = insert_dim_customer_result [OF i]
  note f = update_dim_customer_frame [of sel d]
  show "stg_order_export_raw db' = stg_order_export_raw db" unfolding u using f r(1) by simp
  show "dim_platform db' = dim_platform db" unfolding u using f r(1) by simp
  show "dim_product db' = dim_product db" unfolding u using f r(1) by simp
  show "map c_customer_id (dim_customer db')
          = map c_customer_id (dim_customer db) @ map c_customer_id (new_customers db)"
    unfolding u using f r(1) by simp
  show "distinct (map c_customer_id (dim_customer db'))" unfolding u using f r(2) by simp
qed

lemma key_in_map: "c \<in> set xs \<Longrightarrow> f c = k \<Longrightarrow> k \<in> set (map f xs)"
  by auto

lemma key_of_map: "k \<in> set (map f xs) \<Longrightarrow> \<exists>c\<in>set xs. f c = k"
  by auto

lemma customers_covered:
  assumes s: "stg_order_export_raw db' = stg_order_export_raw db"
    and m: "map c_customer_id (dim_customer db')
          = map c_customer_id (dim_customer db) @ map c_customer_id (new_customers db)"
  shows "new_customers db' = []"
proof -
  let ?P = "\<lambda>x. \<not> (\<exists>c\<in>set (dim_customer db). c_customer_id c = fst x)"
  let ?P' = "\<lambda>x. \<not> (\<exists>c\<in>set (dim_customer db'). c_customer_id c = fst x)"
  let ?S = "staged_customers (stg_order_export_raw db)"
  have pq: "(\<lambda>(cid, st, po). \<not> (\<exists>c\<in>set xs. c_customer_id c = cid))
      = (\<lambda>x. \<not> (\<exists>c\<in>set xs. c_customer_id c = fst x))" for xs :: "customer_row list"
    by (auto simp: fun_eq_iff)
  have ids: "map c_customer_id (new_customers db) = map fst (filter ?P ?S)"
    unfolding new_customers_def pq by (simp add: comp_def case_prod_beta)
  have cov: "\<not> ?P' x" if x: "x \<in> set ?S" for x
  proof (cases "?P x")
    case False
    then obtain c where "c \<in> set (dim_customer db)" "c_customer_id c = fst x" by blast
    then have "fst x \<in> set (map c_customer_id (dim_customer db))" by (rule key_in_map)
    then have "fst x \<in> set (map c_customer_id (dim_customer db'))" unfolding m by simp
    then show ?thesis using key_of_map by fast
  next
    case True
    then have "x \<in> set (filter ?P ?S)" using x by simp
    then have "fst x \<in> set (map fst (filter ?P ?S))" by (rule key_in_map) simp
    then have "fst x \<in> set (map c_customer_id (dim_customer db'))" unfolding m ids by simp
    then show ?thesis using key_of_map by fast
  qed
  have "filter ?P' ?S = []"
    unfolding filter_empty_conv using cov by blast
  then show ?thesis unfolding new_customers_def pq s by simp
qed

lemma upsert_dimensions_steps:
  assumes "natural_keys_unique db"
  shows "\<exists>dbQ. upsert_dimensions sel db
           = (case upsert_dim_customer sel dbQ of Inl e \<Rightarrow> (dbQ, Some e) | Inr dbR \<Rightarrow> (dbR, None))
     \<and> stg_order_export_raw dbQ = stg_order_export_raw db
     \<and> map platform_name (dim_platform dbQ) = map platform_name (dim_platform db) @ new_platform_names db
     \<and> map main_sku_code (dim_product dbQ) = map main_sku_code (dim_product db) @ new_product_keys db
     \<and> distinct (map platform_name (dim_platform dbQ))
     \<and> distinct (map main_sku_code (dim_product dbQ))
     \<and> dim_customer dbQ = dim_customer db"
proof -
  from assms have d1: "distinct (map platform_name (dim_platform db))"
    and d2: "distinct (map main_sku_code (dim_product db))"
    by (simp_all add: natural_keys_unique_def)
  from upsert_dim_platform_ok [OF d1] obtain dbP where p:
    "upsert_dim_platform db = Inr dbP"
    "map platform_name (dim_platform dbP) = map platform_name (dim_platform db) @ new_platform_names db"
    "distinct (map platform_name (dim_platform dbP))"
    "stg_order_export_raw dbP = stg_order_export_raw db"
    "dim_product dbP = dim_product db"
    "dim_customer dbP = dim_customer db"
    by blast
  have d2': "distinct (map main_sku_code (dim_product dbP))" using d2 p(5) by simp
  from insert_dim_product_ok [OF d2'] obtain dbQ where q:
    "insert_dim_product dbP = Inr dbQ"
    "map main_sku_code (dim_product dbQ) = map main_sku_code (dim_product dbP) @ new_product_keys dbP"
    "distinct (map main_sku_code (dim_product dbQ))"
    "stg_order_export_raw dbQ = stg_order_export_raw dbP"
    "dim_platform dbQ = dim_platform dbP"
    "dim_customer dbQ = dim_customer dbP"
    by blast
  have k: "new_product_keys dbP = new_product_keys db"
    by (simp add: new_product_keys_def p(4,5))
  have "upsert_dimensions sel db
           = (case upsert_dim_customer sel dbQ of Inl e \<Rightarrow> (dbQ, Some e) | Inr dbR \<Rightarrow> (dbR, None))"
    by (simp add: upsert_dimensions_def p(1) q(1))
  moreover have "stg_order_export_raw dbQ = stg_order_export_raw db" using p(4) q(4) by simp
  moreover have "map platform_name (dim_platform dbQ)
      = map platform_name (dim_platform db) @ new_platform_names db" using p(2) q(5) by simp
  moreover have "map main_sku_code (dim_product dbQ)
      = map main_sku_code (dim_product db) @ new_product_keys db" using q(2) k p(5) by simp
  moreover have "distinct (map platform_name (dim_platform dbQ))" using p(3) q(5) by simp
  moreover have "dim_customer dbQ = dim_customer db" using p(6) q(6) by simp
  ultimately show ?thesis using q(3) by blast
qed

lemma upsert_dimensions_settled:
  assumes "distinct (map platform_name (dim_platform db))"
    and "distinct (map main_sku_code (dim_product db))"
    and "new_platform_names db = []" and "new_product_keys db = []"
  shows "upsert_dimensions sel db
           = (case upsert_dim_customer sel db of Inl e \<Rightarrow> (db, Some e) | Inr d \<Rightarrow> (d, None))"
  by (simp add: upsert_dimensions_def upsert_dim_platform_noop [OF assms(1,3)]
      insert_dim_product_noop [OF assms(2,4)])

lemma insert_dim_customer_conflict:
  "insert_dim_customer
     (empty_warehouse\<lparr>stg_order_export_raw :=
        [\<lparr>orderNo = Some ''A1'', commercePlatform = Some ''Amazon'', postalCode = None,
          createTime = None, submitTime = Some 1706608800, goodsNumber = Some 2,
          customer_id = Some 7, state_code = Some ''CA'', product_key = Some ''SKU1''\<rparr>,
         \<lparr>orderNo = Some ''A2'', commercePlatform = Some ''Amazon'', postalCode = None,
          createTime = None, submitTime = Some 1706608800, goodsNumber = Some 2,
          customer_id = Some 7, state_code = None, product_key = Some ''SKU1''\<rparr>]\<rparr>)
   = Inl DuplicateKey"
  by code_simp

text \<open>
  Claim C8. On a warehouse whose natural keys are unique, running the three dimension
  upserts a second time on the same staged batch leaves \<open>dim_platform\<close> and \<open>dim_product\<close>
  as they are and \<open>dim_customer\<close> with the same customers, so every row count is
  unchanged; the natural keys are unique after each run; and the second run ends as the
  first did (with the same error, if the customer insert failed on its primary key).
\<close>

theorem upsert_dimensions_idempotent:
  assumes inv: "natural_keys_unique db"
    and r1: "upsert_dimensions sel db = (db1, e1)"
    and r2: "upsert_dimensions sel' db1 = (db2, e2)"
  shows "length (dim_platform db2) = length (dim_platform db1)
     \<and> length (dim_product db2) = length (dim_product db1)
     \<and> length (dim_customer db2) = length (dim_customer db1)
     \<and> natural_keys_unique db1 \<and> natural_keys_unique db2
     \<and> dim_platform db2 = dim_platform db1
     \<and> dim_product db2 = dim_product db1
     \<and> map c_customer_id (dim_customer db2) = map c_customer_id (dim_customer db1)
     \<and> stg_order_export_raw db1 = stg_order_export_raw db
     \<and> e2 = e1"
proof -
  from upsert_dimensions_steps [OF inv, of sel] obtain dbQ where q:
    "upsert_dimensions sel db
       = (case upsert_dim_customer sel dbQ of Inl e \<Rightarrow> (dbQ, Some e) | Inr dbR \<Rightarrow> (dbR, None))"
    "stg_order_export_raw dbQ = stg_order_export_raw db"
    "map platform_name (dim_platform dbQ) = map platform_name (dim_platform db) @ new_platform_names db"
    "map main_sku_code (dim_product dbQ) = map main_sku_code (dim_product db) @ new_product_keys db"
    "distinct (map platform_name (dim_platform dbQ))"
    "distinct (map main_sku_code (dim_product dbQ))"
    "dim_customer dbQ = dim_customer db"
    by blast
  have cq: "distinct (map c_customer_id (dim_customer dbQ))"
    using inv q(7) by (simp add: natural_keys_unique_def)
  have nq: "new_platform_names dbQ = []" by (rule platform_names_covered [OF q(2,3)])
  have kq: "new_product_keys dbQ = []" by (rule product_keys_covered [OF q(2,4)])
  show ?thesis
  proof (cases "upsert_dim_customer sel dbQ")
    case (Inl e)
    then have a: "db1 = dbQ" "e1 = Some e" using q(1) r1 by simp_all
    have i: "insert_dim_customer dbQ = Inl e"
      using Inl by (simp add: upsert_dim_customer_def split: sum.splits)
    then have "upsert_dim_customer sel' dbQ = Inl e" by (simp add: upsert_dim_customer_def)
    then have "upsert_dimensions sel' dbQ = (dbQ, Some e)"
      by (simp add: upsert_dimensions_settled [OF q(5,6) nq kq])
    then have b: "db2 = dbQ" "e2 = Some e" using r2 a(1) by simp_all
    have "natural_keys_unique dbQ" using q(5,6) cq by (simp add: natural_keys_unique_def)
    then show ?thesis unfolding a b using q(2) by simp
  next
    case (Inr dbR)
    then have a: "db1 = dbR" "e1 = None" using q(1) r1 by simp_all
    note u = upsert_dim_customer_result [OF Inr]
    have s: "stg_order_export_raw dbR = stg_order_export_raw db" using u(1) q(2) by simp
    have nr: "new_platform_names dbR = []"
      using nq by (simp add: new_platform_names_def u(1,2))
    have kr: "new_product_keys dbR = []"
      using kq by (simp add: new_product_keys_def u(1,3))
    have dp: "distinct (map platform_name (dim_platform dbR))" using q(5) u(2) by simp
    have dk: "distinct (map main_sku_code (dim_product dbR))" using q(6) u(3) by simp
    have inv1: "natural_keys_unique dbR" using dp dk u(5) by (simp add: natural_keys_unique_def)
    have cr: "new_customers dbR = []" by (rule customers_covered [OF u(1,4)])
    have "insert_dim_customer dbR = Inr dbR" by (rule insert_dim_customer_noop [OF u(5) cr])
    then have "upsert_dim_customer sel' dbR = Inr (update_dim_customer sel' dbR)"
      by (simp add: upsert_dim_customer_def)
    then have "upsert_dimensions sel' dbR = (update_dim_customer sel' dbR, None)"
      by (simp add: upsert_dimensions_settled [OF dp dk nr kr])
    then have b: "db2 = update_dim_customer sel' dbR" "e2 = None" using r2 a(1) by simp_all
    note f = update_dim_customer_frame [of sel' dbR]
    have m: "map c_customer_id (dim_customer db2) = map c_customer_id (dim_customer dbR)"
      unfolding b using f by simp
    have l: "length (dim_customer db2) = length (dim_customer dbR)"
      using arg_cong [OF m, of length] by simp
    have inv2: "natural_keys_unique db2"
      using inv1 m f unfolding b natural_keys_unique_def by simp
    have "dim_platform db2 = dim_platform dbR" "dim_product db2 = dim_product dbR"
      unfolding b using f by simp_all
    then show ?thesis using m l inv1 inv2 s a b by simp
  qed
qed

theorem upsert_dimensions_idempotent_witness:
  "natural_keys_unique
     (empty_warehouse\<lparr>stg_order_export_raw :=
        [\<lparr>orderNo = Some ''A1'', commercePlatform = Some ''Amazon'', postalCode = None,
          createTime = None, submitTime = Some 1706608800, goodsNumber = Some 2,
          customer_id = Some 7, state_code = Some ''CA'', product_key = Some ''SKU1''\<rparr>,
         \<lparr>orderNo = Some ''A2'', commercePlatform = Some ''Amazon'', postalCode = None,
          createTime = None, submitTime = Some 1706608800, goodsNumber = Some 2,
          customer_id = Some 7, state_code = Some ''CA'', product_key = Some ''SKU1''\<rparr>]\<rparr>)
   \<and> upsert_dimensions (\<lambda>c. 0)
     (empty_warehouse\<lparr>stg_order_export_raw :=
        [\<lparr>orderNo = Some ''A1'', commercePlatform = Some ''Amazon'', postalCode = None,
          createTime = None, submitTime = Some 1706608800, goodsNumber = Some 2,
          customer_id = Some 7, state_code = Some ''CA'', product_key = Some ''SKU1''\<rparr>,
         \<lparr>orderNo = Some ''A2'', commercePlatform = Some ''Amazon'', postalCode = None,
          createTime = None, submitTime = Some 1706608800, goodsNumber = Some 2,
          customer_id = Some 7, state_code = Some ''CA'', product_key = Some ''SKU1''\<rparr>]\<rparr>)
     = (empty_warehouse\<lparr>stg_order_export_raw :=
        [\<lparr>orderNo = Some ''A1'', commercePlatform = Some ''Amazon'', postalCode = None,
          createTime = None, submitTime = Some 1706608800, goodsNumber = Some 2,
          customer_id = Some 7, state_code = Some ''CA'', product_key = Some ''SKU1''\<rparr>,
         \<lparr>orderNo = Some ''A2'', commercePlatform = Some ''Amazon'', postalCode = None,
          createTime = None, submitTime = Some 1706608800, goodsNumber = Some 2,
          customer_id = Some 7, state_code = Some ''CA'', product_key = Some ''SKU1''\<rparr>],
       dim_platform := [\<lparr>platform_id = 1, platform_name = ''Amazon''\<rparr>],
       dim_product := [\<lparr>product_id = 1, main_sku_code = ''SKU1'', english_name = None,
          chinese_name = None, customer_code = None, category = None\<rparr>],
       dim_customer := [\<lparr>c_customer_id = 7, c_gender = Some ''Unknown'',
          c_state_code = Some ''CA'', c_postal_code = None\<rparr>],
       platform_identity := 2, product_identity := 2\<rparr>, None)
   \<and> upsert_dimensions (\<lambda>c. 0)
     (empty_warehouse\<lparr>stg_order_export_raw :=
        [\<lparr>orderNo = Some ''A1'', commercePlatform = Some ''Amazon'', postalCode = None,
          createTime = None, submitTime = Some 1706608800, goodsNumber = Some 2,
          customer_id = Some 7, state_code = Some ''CA'', product_key = Some ''SKU1''\<rparr>,
         \<lparr>orderNo = Some ''A2'', commercePlatform = Some ''Amazon'', postalCode = None,
          createTime = None, submitTime = Some 1706608800, goodsNumber = Some 2,
          customer_id = Some 7, state_code = Some ''CA'', product_key = Some ''SKU1''\<rparr>],
       dim_platform := [\<lparr>platform_id = 1, platform_name = ''Amazon''\<rparr>],
       dim_product := [\<lparr>product_id = 1, main_sku_code = ''SKU1'', english_name = None,
          chinese_name = None, customer_code = None, category = None\<rparr>],
       dim_customer := [\<lparr>c_customer_id = 7, c_gender = Some ''Unknown'',
          c_state_code = Some ''CA'', c_postal_code = None\<rparr>],
       platform_identity := 2, product_identity := 2\<rparr>)
     = (empty_warehouse\<lparr>stg_order_export_raw :=
        [\<lparr>orderNo = Some ''A1'', commercePlatform = Some ''Amazon'', postalCode = None,
          createTime = None, submitTime = Some 1706608800, goodsNumber = Some 2,
          customer_id = Some 7, state_code = Some ''CA'', product_key = Some ''SKU1''\<rparr>,
         \<lparr>orderNo = Some ''A2'', commercePlatform = Some ''Amazon'', postalCode = None,
          createTime = None, submitTime = Some 1706608800, goodsNumber = Some 2,
          customer_id = Some 7, state_code = Some ''CA'', product_key = Some ''SKU1''\<rparr>],
       dim_platform := [\<lparr>platform_id = 1, platform_name = ''Amazon''\<rparr>],
       dim_product := [\<lparr>product_id = 1, main_sku_code = ''SKU1'', english_name = None,
          chinese_name = None, customer_code = None, category = None\<rparr>],
       dim_customer := [\<lparr>c_customer_id = 7, c_gender = Some ''Unknown'',
          c_state_code = Some ''CA'', c_postal_code = None\<rparr>],
       platform_identity := 2, product_identity := 2\<rparr>, None)
   \<and> length (dim_customer
     (empty_warehouse\<lparr>stg_order_export_raw :=
        [\<lparr>orderNo = Some ''A1'', commercePlatform = Some ''Amazon'', postalCode = None,
          createTime = None, submitTime = Some 1706608800, goodsNumber = Some 2,
          customer_id = Some 7, state_code = Some ''CA'', product_key = Some ''SKU1''\<rparr>,
         \<lparr>orderNo = Some ''A2'', commercePlatform = Some ''Amazon'', postalCode = None,
          createTime = None, submitTime = Some 1706608800, goodsNumber = Some 2,
          customer_id = Some 7, state_code = Some ''CA'', product_key = Some ''SKU1''\<rparr>],
       dim_platform := [\<lparr>platform_id = 1, platform_name = ''Amazon''\<rparr>],
       dim_product := [\<lparr>product_id = 1, main_sku_code = ''SKU1'', english_name = None,
          chinese_name = None, customer_code = None, category = None\<rparr>],
       dim_customer := [\<lparr>c_customer_id = 7, c_gender = Some ''Unknown'',
          c_state_code = Some ''CA'', c_postal_code = None\<rparr>],
       platform_identity := 2, product_identity := 2\<rparr>)) = 1
   \<and> natural_keys_unique
     (empty_warehouse\<lparr>stg_order_export_raw :=
        [\<lparr>orderNo = Some ''A1'', commercePlatform = Some ''Amazon'', postalCode = None,
          createTime = None, submitTime = Some 1706608800, goodsNumber = Some 2,
          customer_id = Some 7, state_code = Some ''CA'', product_key = Some ''SKU1''\<rparr>,
         \<lparr>orderNo = Some ''A2'', commercePlatform = Some ''Amazon'', postalCode = None,
          createTime = None, submitTime = Some 1706608800, goodsNumber = Some 2,
          customer_id = Some 7, state_code = Some ''CA'', product_key = Some ''SKU1''\<rparr>],
       dim_platform := [\<lparr>platform_id = 1, platform_name = ''Amazon''\<rparr>],
       dim_product := [\<lparr>product_id = 1, main_sku_code = ''SKU1'', english_name = None,
          chinese_name = None, customer_code = None, category = None\<rparr>],
       dim_customer := [\<lparr>c_customer_id = 7, c_gender = Some ''Unknown'',
          c_state_code = Some ''CA'', c_postal_code = None\<rparr>],
       platform_identity := 2, product_identity := 2\<rparr>)"
proof -
  let ?db0 = "empty_warehouse\<lparr>stg_order_export_raw :=
        [\<lparr>orderNo = Some ''A1'', commercePlatform = Some ''Amazon'', postalCode = None,
          createTime = None, submitTime = Some 1706608800, goodsNumber = Some 2,
          customer_id = Some 7, state_code = Some ''CA'', product_key = Some ''SKU1''\<rparr>,
         \<lparr>orderNo = Some ''A2'', commercePlatform = Some ''Amazon'', postalCode = None,
          createTime = None, submitTime = Some 1706608800, goodsNumber = Some 2,
          customer_id = Some 7, state_code = Some ''CA'', product_key = Some ''SKU1''\<rparr>]\<rparr>"
  let ?db1 = "empty_warehouse\<lparr>stg_order_export_raw :=
        [\<lparr>orderNo = Some ''A1'', commercePlatform = Some ''Amazon'', postalCode = None,
          createTime = None, submitTime = Some 1706608800, goodsNumber = Some 2,
          customer_id = Some 7, state_code = Some ''CA'', product_key = Some ''SKU1''\<rparr>,
         \<lparr>orderNo = Some ''A2'', commercePlatform = Some ''Amazon'', postalCode = None,
          createTime = None, submitTime = Some 1706608800, goodsNumber = Some 2,
          customer_id = Some 7, state_code = Some ''CA'', product_key = Some ''SKU1''\<rparr>],
       dim_platform := [\<lparr>platform_id = 1, platform_name = ''Amazon''\<rparr>],
       dim_product := [\<lparr>product_id = 1, main_sku_code = ''SKU1'', english_name = None,
          chinese_name = None, customer_code = None, category = None\<rparr>],
       dim_customer := [\<lparr>c_customer_id = 7, c_gender = Some ''Unknown'',
          c_state_code = Some ''CA'', c_postal_code = None\<rparr>],
       platform_identity := 2, product_identity := 2\<rparr>"
  have i: "natural_keys_unique ?db0" by code_simp
  have a: "upsert_dimensions (\<lambda>c. 0) ?db0 = (?db1, None)" by code_simp
  have b: "upsert_dimensions (\<lambda>c. 0) ?db1 = (?db1, None)" by code_simp
  from upsert_dimensions_idempotent [OF i a b]
  have "length (dim_customer ?db1) = length (dim_customer ?db1) \<and> natural_keys_unique ?db1"
    by blast
  moreover have "length (dim_customer ?db1) = 1" by simp
  ultimately show ?thesis using i a b by blast
qed

end
